theory Spec2Isabelle
  imports Complex_Main "HOL-Library.Word"
begin

section \<open>Go values used by the transcription providers\<close>

subsection \<open>float64\<close>

text \<open>
  A Go \<open>float64\<close> is an IEEE 754 binary64 value.  A finite value is modelled by the
  rational number it denotes (the sign of a zero is dropped: no operation below
  distinguishes the two zeros).  Arithmetic computes the exact rational result and rounds
  it to the nearest binary64 value, ties to even, as the hardware does.
\<close>

datatype float64 = Fin rat | PInf | NInf | NaN

definition pow2 :: "int \<Rightarrow> rat" where
  "pow2 e = (if 0 \<le> e then of_int (2 ^ nat e) else 1 / of_int (2 ^ nat (- e)))"

definition round_half_even :: "rat \<Rightarrow> int" where
  "round_half_even q =
     (let f = \<lfloor>q\<rfloor>; d = q - of_int f
      in if d < 1 / 2 then f
         else if 1 / 2 < d then f + 1
         else if even f then f else f + 1)"

text \<open>The number of bits of a positive integer (0 otherwise).\<close>

function bit_length :: "int \<Rightarrow> int" where
  "bit_length n = (if 0 < n then bit_length (n div 2) + 1 else 0)"
  by pat_completeness auto
termination
  by (relation "measure nat") auto

declare bit_length.simps [simp del]

text \<open>\<open>ilog2 a\<close> is \<open>\<lfloor>log\<^sub>2 a\<rfloor>\<close> for a positive rational, computed from the bit lengths of
  numerator and denominator.\<close>

definition ilog2 :: "rat \<Rightarrow> int" where
  "ilog2 a =
     (let k = bit_length (fst (quotient_of a)) - bit_length (snd (quotient_of a))
      in if pow2 k \<le> a then k else k - 1)"

text \<open>
  Rounding to binary64.  A positive rational \<open>a\<close> is rounded to a multiple of
  \<open>2\<^sup>e\<close>, where \<open>e\<close> leaves 53 significant bits and is never below \<open>-1074\<close> (the
  subnormal range); a magnitude that reaches \<open>2\<^sup>1\<^sup>0\<^sup>2\<^sup>4\<close> overflows to an infinity.
\<close>

definition f64_exponent :: "rat \<Rightarrow> int" where
  "f64_exponent a = max (ilog2 a - 52) (- 1074)"

definition f64_round_mag :: "rat \<Rightarrow> rat" where
  "f64_round_mag a =
     of_int (round_half_even (a / pow2 (f64_exponent a))) * pow2 (f64_exponent a)"

definition f64_round :: "rat \<Rightarrow> float64" where
  "f64_round q =
     (if q = 0 then Fin 0
      else let r = f64_round_mag \<bar>q\<bar>
           in if pow2 1024 \<le> r then (if 0 < q then PInf else NInf)
              else Fin (sgn q * r))"

text \<open>The Go expression \<open>x * y\<close> on \<open>float64\<close>.\<close>

fun f64_mul :: "float64 \<Rightarrow> float64 \<Rightarrow> float64" where
  "f64_mul NaN _ = NaN"
| "f64_mul _ NaN = NaN"
| "f64_mul (Fin a) (Fin b) = f64_round (a * b)"
| "f64_mul (Fin a) PInf = (if a = 0 then NaN else if 0 < a then PInf else NInf)"
| "f64_mul (Fin a) NInf = (if a = 0 then NaN else if 0 < a then NInf else PInf)"
| "f64_mul PInf (Fin b) = (if b = 0 then NaN else if 0 < b then PInf else NInf)"
| "f64_mul NInf (Fin b) = (if b = 0 then NaN else if 0 < b then NInf else PInf)"
| "f64_mul PInf PInf = PInf"
| "f64_mul PInf NInf = NInf"
| "f64_mul NInf PInf = NInf"
| "f64_mul NInf NInf = PInf"

text \<open>The Go comparisons \<open>x == y\<close>, \<open>x < y\<close> and \<open>x >= y\<close>: false whenever a NaN is
  involved.\<close>

fun f64_eq :: "float64 \<Rightarrow> float64 \<Rightarrow> bool" where
  "f64_eq NaN _ = False"
| "f64_eq _ NaN = False"
| "f64_eq x y = (x = y)"

fun f64_lt :: "float64 \<Rightarrow> float64 \<Rightarrow> bool" where
  "f64_lt NaN _ = False"
| "f64_lt _ NaN = False"
| "f64_lt (Fin a) (Fin b) = (a < b)"
| "f64_lt NInf y = (y \<noteq> NInf)"
| "f64_lt x PInf = (x \<noteq> PInf)"
| "f64_lt _ _ = False"

fun f64_ge :: "float64 \<Rightarrow> float64 \<Rightarrow> bool" where
  "f64_ge NaN _ = False"
| "f64_ge _ NaN = False"
| "f64_ge x y = (\<not> f64_lt x y)"

subsection \<open>int64 and the conversion \<open>int64(x)\<close>\<close>

type_synonym int64 = "64 word"

definition trunc :: "rat \<Rightarrow> int" where
  "trunc q = (if 0 \<le> q then \<lfloor>q\<rfloor> else \<lceil>q\<rceil>)"

text \<open>
  The conversion of a \<open>float64\<close> to \<open>int64\<close> discards the fraction (truncation towards
  zero).  When the truncated value does not fit 64 bits, or the operand is a NaN or an
  infinity, the conversion still succeeds but the language leaves the result to the
  implementation: that part is the parameter \<open>impl\<close>.
\<close>

type_synonym conv_impl = "float64 \<Rightarrow> int64"

definition fits_int64 :: "float64 \<Rightarrow> bool" where
  "fits_int64 x = (case x of Fin q \<Rightarrow> - (2 ^ 63) \<le> trunc q \<and> trunc q < 2 ^ 63 | _ \<Rightarrow> False)"

definition int64_of_float64 :: "conv_impl \<Rightarrow> float64 \<Rightarrow> int64" where
  "int64_of_float64 impl x =
     (case x of
        Fin q \<Rightarrow> (if fits_int64 x then word_of_int (trunc q) else impl x)
      | _ \<Rightarrow> impl x)"

text \<open>What Go on amd64 yields outside the range (the "integer indefinite" value of the
  conversion instruction).\<close>

definition amd64_conv :: conv_impl where
  "amd64_conv x = 0x8000000000000000"

subsection \<open>Decoded JSON: \<open>interface{}\<close> values\<close>

text \<open>
  \<open>encoding/json\<close> decodes into \<open>nil\<close>, \<open>bool\<close>, \<open>float64\<close>, \<open>string\<close>,
  \<open>[]interface{}\<close> and \<open>map[string]interface{}\<close>.  A map is an association list read
  with \<open>map_of\<close>.
\<close>

datatype json =
    JNull
  | JBool bool
  | JNum float64
  | JStr string
  | JArr "json list"
  | JObj "(string \<times> json) list"

type_synonym json_obj = "(string \<times> json) list"

text \<open>The type assertions \<open>m[k].(string)\<close>, \<open>m[k].(float64)\<close>, \<open>m[k].([]interface{})\<close> and
  \<open>m[k].(map[string]interface{})\<close> in their two-result form: \<open>None\<close> is \<open>ok = false\<close>.\<close>

definition get_string :: "json_obj \<Rightarrow> string \<Rightarrow> string option" where
  "get_string m k = (case map_of m k of Some (JStr s) \<Rightarrow> Some s | _ \<Rightarrow> None)"

definition get_float64 :: "json_obj \<Rightarrow> string \<Rightarrow> float64 option" where
  "get_float64 m k = (case map_of m k of Some (JNum x) \<Rightarrow> Some x | _ \<Rightarrow> None)"

definition get_array :: "json_obj \<Rightarrow> string \<Rightarrow> json list option" where
  "get_array m k = (case map_of m k of Some (JArr xs) \<Rightarrow> Some xs | _ \<Rightarrow> None)"

definition get_object :: "json_obj \<Rightarrow> string \<Rightarrow> json_obj option" where
  "get_object m k = (case map_of m k of Some (JObj obj) \<Rightarrow> Some obj | _ \<Rightarrow> None)"

text \<open>The form \<open>v, _ := m[k].(T)\<close>: the zero value of \<open>T\<close> when the assertion fails.\<close>

definition string_or_zero :: "json_obj \<Rightarrow> string \<Rightarrow> string" where
  "string_or_zero m k = (case get_string m k of Some s \<Rightarrow> s | None \<Rightarrow> [])"

definition float64_or_zero :: "json_obj \<Rightarrow> string \<Rightarrow> float64" where
  "float64_or_zero m k = (case get_float64 m k of Some x \<Rightarrow> x | None \<Rightarrow> Fin 0)"

text \<open>The number a JSON decimal literal decodes to: the nearest \<open>float64\<close>.  This is
  for a literal within the range of \<open>float64\<close>; the decoder rejects a literal beyond it,
  and no response is decoded then.\<close>

definition json_number :: "rat \<Rightarrow> json" where
  "json_number q = JNum (f64_round q)"


section \<open>The canonical transcript model and the error types\<close>

record Sentence =
  Text :: string
  Start :: int64
  End :: int64
  SpeakerID :: string

record Word =
  Text :: string
  Start :: int64
  End :: int64
  SpeakerID :: string

record StandardResult =
  Text :: string
  Words :: "Word list"
  Sentences :: "Sentence list"
  Language :: string

text \<open>
  The error values of the provider packages.  \<open>ParseError\<close> and \<open>FetchError\<close> carry an
  optional underlying error; \<open>Errorf\<close> is an error made by \<open>fmt.Errorf\<close>, with the error
  wrapped by \<open>%w\<close> when there is one; \<open>Canceled\<close> and \<open>DeadlineExceeded\<close> are the two
  errors of a finished context; \<open>OtherError\<close> is any error of a library (network, JSON).
\<close>

datatype error =
    ValidationError string string
  | FetchError string string "error option"
  | ParseError string "error option"
  | APIError int string
  | Errorf string "error option"
  | Canceled
  | DeadlineExceeded
  | OtherError string

section \<open>Response normalisation\<close>

subsection \<open>ElevenLabs: \<open>parse\<close>\<close>

text \<open>The body of the loop over \<open>wordsRaw\<close> for an entry that is a map.\<close>

definition elevenlabs_word :: "conv_impl \<Rightarrow> json_obj \<Rightarrow> Word" where
  "elevenlabs_word impl word =
     (let wordText = string_or_zero word ''text'';
          start = float64_or_zero word ''start'';
          end' = float64_or_zero word ''end'';
          wordTiming = \<lparr>Word.Text = wordText,
                        Start = int64_of_float64 impl (f64_mul start (Fin 1000)),
                        End = int64_of_float64 impl (f64_mul end' (Fin 1000)),
                        SpeakerID = []\<rparr>
      in case get_string word ''speaker_id'' of
           Some speakerID \<Rightarrow>
             (if speakerID \<noteq> [] then wordTiming\<lparr>SpeakerID := speakerID\<rparr> else wordTiming)
         | None \<Rightarrow> wordTiming)"

text \<open>The loop: entries that are not maps are skipped, every map appends one word.\<close>

fun elevenlabs_words :: "conv_impl \<Rightarrow> json list \<Rightarrow> Word list \<Rightarrow> Word list" where
  "elevenlabs_words impl [] ws = ws"
| "elevenlabs_words impl (JObj word # wordsRaw) ws =
     elevenlabs_words impl wordsRaw (ws @ [elevenlabs_word impl word])"
| "elevenlabs_words impl (_ # wordsRaw) ws = elevenlabs_words impl wordsRaw ws"

definition elevenlabs_parse :: "conv_impl \<Rightarrow> json_obj \<Rightarrow> error + StandardResult" where
  "elevenlabs_parse impl response =
     (case get_string response ''text'' of
        None \<Rightarrow> Inl (ParseError ''missing text field in response'' None)
      | Some text \<Rightarrow>
     (case get_array response ''words'' of
        None \<Rightarrow> Inl (ParseError ''missing words field in response'' None)
      | Some wordsRaw \<Rightarrow>
          let result = \<lparr>Text = text, Words = [], Sentences = [], Language = []\<rparr>;
              result = (case get_string response ''language_code'' of
                          Some langCode \<Rightarrow> result\<lparr>Language := langCode\<rparr>
                        | None \<Rightarrow> result);
              result = result\<lparr>Words := elevenlabs_words impl wordsRaw (Words result)\<rparr>
          in if length (Words result) = 0
             then Inl (ParseError ''no words found in response'' None)
             else Inr result))"

text \<open>\<open>Provider.Parse\<close>: the raw result must be a map.\<close>

definition elevenlabs_Parse :: "conv_impl \<Rightarrow> json \<Rightarrow> error + StandardResult" where
  "elevenlabs_Parse impl raw =
     (case raw of
        JObj response \<Rightarrow> elevenlabs_parse impl response
      | _ \<Rightarrow> Inl (ParseError ''invalid raw result type, expected map[string]interface{}'' None))"

subsection \<open>JianYing: \<open>parse\<close>\<close>

text \<open>The speaker of an utterance or of a word: \<open>attribute.speaker\<close>, when it is a
  non-empty string.\<close>

definition jianying_speaker :: "json_obj \<Rightarrow> string option" where
  "jianying_speaker m =
     (case get_object m ''attribute'' of
        Some attr \<Rightarrow>
          (case get_string attr ''speaker'' of
             Some speaker \<Rightarrow> (if speaker \<noteq> [] then Some speaker else None)
           | None \<Rightarrow> None)
      | None \<Rightarrow> None)"

definition jianying_word :: "conv_impl \<Rightarrow> json_obj \<Rightarrow> Word" where
  "jianying_word impl word =
     (let wordText = string_or_zero word ''text'';
          startTime = float64_or_zero word ''start_time'';
          endTime = float64_or_zero word ''end_time'';
          wordTiming = \<lparr>Word.Text = wordText,
                        Start = int64_of_float64 impl startTime,
                        End = int64_of_float64 impl endTime,
                        SpeakerID = []\<rparr>
      in case jianying_speaker word of
           Some speaker \<Rightarrow> wordTiming\<lparr>SpeakerID := speaker\<rparr>
         | None \<Rightarrow> wordTiming)"

fun jianying_words :: "conv_impl \<Rightarrow> json list \<Rightarrow> Word list \<Rightarrow> Word list" where
  "jianying_words impl [] ws = ws"
| "jianying_words impl (JObj word # wordsRaw) ws =
     jianying_words impl wordsRaw (ws @ [jianying_word impl word])"
| "jianying_words impl (_ # wordsRaw) ws = jianying_words impl wordsRaw ws"

definition jianying_sentence :: "conv_impl \<Rightarrow> json_obj \<Rightarrow> string \<Rightarrow> Sentence" where
  "jianying_sentence impl utt text =
     (let startTimeUtt = float64_or_zero utt ''start_time'';
          endTimeUtt = float64_or_zero utt ''end_time'';
          sentence = \<lparr>Sentence.Text = text,
                      Start = int64_of_float64 impl startTimeUtt,
                      End = int64_of_float64 impl endTimeUtt,
                      SpeakerID = []\<rparr>
      in case jianying_speaker utt of
           Some speaker \<Rightarrow> sentence\<lparr>Sentence.SpeakerID := speaker\<rparr>
         | None \<Rightarrow> sentence)"

text \<open>The body of the loop over the utterances, for an entry that is a map.  The loop
  state is \<open>textParts\<close> and \<open>result\<close>.\<close>

definition jianying_utterance ::
  "conv_impl \<Rightarrow> json_obj \<Rightarrow> string list \<times> StandardResult \<Rightarrow> string list \<times> StandardResult" where
  "jianying_utterance impl utt st =
     (let textParts = fst st; result = snd st;
          text = string_or_zero utt ''text'';
          textParts = (if text \<noteq> [] then textParts @ [text] else textParts);
          result = (if text \<noteq> []
                    then result\<lparr>Sentences := Sentences result @ [jianying_sentence impl utt text]\<rparr>
                    else result)
      in case get_array utt ''words'' of
           None \<Rightarrow> (textParts, result)
         | Some wordsRaw \<Rightarrow>
             (textParts, result\<lparr>Words := jianying_words impl wordsRaw (Words result)\<rparr>))"

fun jianying_utterances ::
  "conv_impl \<Rightarrow> json list \<Rightarrow> string list \<times> StandardResult \<Rightarrow> string list \<times> StandardResult" where
  "jianying_utterances impl [] st = st"
| "jianying_utterances impl (JObj utt # utterancesRaw) st =
     jianying_utterances impl utterancesRaw (jianying_utterance impl utt st)"
| "jianying_utterances impl (_ # utterancesRaw) st = jianying_utterances impl utterancesRaw st"

definition jianying_language :: "json_obj \<Rightarrow> string option" where
  "jianying_language data =
     (case get_object data ''attribute'' of
        Some attr \<Rightarrow>
          (case get_object attr ''extra'' of
             Some extra \<Rightarrow> get_string extra ''language''
           | None \<Rightarrow> None)
      | None \<Rightarrow> None)"

definition jianying_parse :: "conv_impl \<Rightarrow> json_obj \<Rightarrow> error + StandardResult" where
  "jianying_parse impl response =
     (case get_object response ''data'' of
        None \<Rightarrow> Inl (ParseError ''missing data field in response'' None)
      | Some data \<Rightarrow>
     (case get_array data ''utterances'' of
        None \<Rightarrow> Inl (ParseError ''missing utterances field in data'' None)
      | Some utterancesRaw \<Rightarrow>
          let result = \<lparr>Text = [], Words = [], Sentences = [], Language = []\<rparr>;
              result = (case jianying_language data of
                          Some lang \<Rightarrow> result\<lparr>Language := lang\<rparr>
                        | None \<Rightarrow> result);
              st = jianying_utterances impl utterancesRaw ([], result);
              result = (snd st)\<lparr>Text := concat (fst st)\<rparr>
          in if length (Words result) = 0
             then Inl (ParseError ''no words found in response'' None)
             else Inr result))"

definition jianying_Parse :: "conv_impl \<Rightarrow> json \<Rightarrow> error + StandardResult" where
  "jianying_Parse impl raw =
     (case raw of
        JObj response \<Rightarrow> jianying_parse impl response
      | _ \<Rightarrow> Inl (ParseError ''invalid raw result type, expected map[string]interface{}'' None))"

subsection \<open>Bijian: \<open>parse\<close>\<close>

definition bijian_word :: "conv_impl \<Rightarrow> json_obj \<Rightarrow> Word" where
  "bijian_word impl word =
     (let label = string_or_zero word ''label'';
          startTime = float64_or_zero word ''start_time'';
          endTime = float64_or_zero word ''end_time''
      in \<lparr>Word.Text = label,
          Start = int64_of_float64 impl startTime,
          End = int64_of_float64 impl endTime,
          SpeakerID = []\<rparr>)"

fun bijian_words :: "conv_impl \<Rightarrow> json list \<Rightarrow> Word list \<Rightarrow> Word list" where
  "bijian_words impl [] ws = ws"
| "bijian_words impl (JObj word # wordsRaw) ws =
     bijian_words impl wordsRaw (ws @ [bijian_word impl word])"
| "bijian_words impl (_ # wordsRaw) ws = bijian_words impl wordsRaw ws"

definition bijian_utterance ::
  "conv_impl \<Rightarrow> json_obj \<Rightarrow> string list \<times> StandardResult \<Rightarrow> string list \<times> StandardResult" where
  "bijian_utterance impl utt st =
     (let textParts = fst st; result = snd st;
          transcript = string_or_zero utt ''transcript'';
          startTimeUtt = float64_or_zero utt ''start_time'';
          endTimeUtt = float64_or_zero utt ''end_time'';
          textParts = (if transcript \<noteq> [] then textParts @ [transcript] else textParts);
          result = (if transcript \<noteq> []
                    then result\<lparr>Sentences := Sentences result @
                           [\<lparr>Sentence.Text = transcript,
                             Start = int64_of_float64 impl startTimeUtt,
                             End = int64_of_float64 impl endTimeUtt,
                             SpeakerID = []\<rparr>]\<rparr>
                    else result)
      in case get_array utt ''words'' of
           None \<Rightarrow> (textParts, result)
         | Some wordsRaw \<Rightarrow>
             (textParts, result\<lparr>Words := bijian_words impl wordsRaw (Words result)\<rparr>))"

fun bijian_utterances ::
  "conv_impl \<Rightarrow> json list \<Rightarrow> string list \<times> StandardResult \<Rightarrow> string list \<times> StandardResult" where
  "bijian_utterances impl [] st = st"
| "bijian_utterances impl (JObj utt # utterancesRaw) st =
     bijian_utterances impl utterancesRaw (bijian_utterance impl utt st)"
| "bijian_utterances impl (_ # utterancesRaw) st = bijian_utterances impl utterancesRaw st"

definition bijian_parse :: "conv_impl \<Rightarrow> json_obj \<Rightarrow> error + StandardResult" where
  "bijian_parse impl response =
     (case get_array response ''utterances'' of
        None \<Rightarrow> Inl (ParseError ''missing utterances field in response'' None)
      | Some utterancesRaw \<Rightarrow>
          let result = \<lparr>Text = [], Words = [], Sentences = [], Language = []\<rparr>;
              st = bijian_utterances impl utterancesRaw ([], result);
              result = (snd st)\<lparr>Text := concat (fst st)\<rparr>
          in if length (Words result) = 0
             then Inl (ParseError ''no words found in response'' None)
             else Inr result)"

definition bijian_Parse :: "conv_impl \<Rightarrow> json \<Rightarrow> error + StandardResult" where
  "bijian_Parse impl raw =
     (case raw of
        JObj response \<Rightarrow> bijian_parse impl response
      | _ \<Rightarrow> Inl (ParseError ''invalid raw result type, expected map[string]interface{}'' None))"

section \<open>Fetch options\<close>

record elevenlabs_Options =
  LanguageCode :: string
  TagAudioEvents :: bool

record jianying_Options =
  StartTime :: float64
  EndTime :: float64

record bijian_Options =
  Cookie :: string

text \<open>
  \<open>Validate\<close> has a pointer receiver and may write to the options: the model returns the
  options as they are after the call, together with the error (\<open>None\<close> is \<open>nil\<close>).
\<close>

definition elevenlabs_Validate :: "elevenlabs_Options \<Rightarrow> elevenlabs_Options \<times> error option" where
  "elevenlabs_Validate o1 =
     (let o1 = (if LanguageCode o1 = [] then o1\<lparr>LanguageCode := ''auto''\<rparr> else o1)
      in (o1, None))"

definition jianying_Validate :: "jianying_Options \<Rightarrow> jianying_Options \<times> error option" where
  "jianying_Validate o1 =
     (let o1 = (if f64_eq (EndTime o1) (Fin 0) then o1\<lparr>EndTime := Fin 6000\<rparr> else o1)
      in if f64_lt (StartTime o1) (Fin 0)
         then (o1, Some (ValidationError ''StartTime'' ''must be non-negative''))
         else if f64_lt (EndTime o1) (Fin 0)
         then (o1, Some (ValidationError ''EndTime'' ''must be non-negative''))
         else if f64_ge (StartTime o1) (EndTime o1)
         then (o1, Some (ValidationError ''StartTime/EndTime''
                           ''StartTime must be less than EndTime''))
         else (o1, None))"

definition bijian_Validate :: "bijian_Options \<Rightarrow> bijian_Options \<times> error option" where
  "bijian_Validate o1 = (o1, None)"

text \<open>
  A value of the interface \<open>FetchOptions\<close>: the nil interface, a pointer to the options of
  one of the three providers (\<open>None\<close> is the nil pointer of that type), or a value of any
  other type that implements the interface.
\<close>

datatype FetchOptions =
    NilOptions
  | ElevenLabsOptions "elevenlabs_Options option"
  | JianYingOptions "jianying_Options option"
  | BijianOptions "bijian_Options option"
  | OtherOptions

section \<open>Provider.Fetch\<close>

text \<open>
  \<open>Fetch\<close> converts and validates the options and then runs the provider's workflow
  \<open>fetch\<close>.  The workflow is a parameter here: a function of the audio path, the options
  and the state \<open>w\<close> of everything outside the process (network, file system, clock), which
  returns the raw response or an error together with the new outside state.
\<close>

type_synonym ('o, 'w) workflow = "string \<Rightarrow> 'o \<Rightarrow> 'w \<Rightarrow> (error + json) \<times> 'w"

definition elevenlabs_Fetch ::
  "(elevenlabs_Options, 'w) workflow \<Rightarrow> string \<Rightarrow> FetchOptions \<Rightarrow> 'w \<Rightarrow> (error + json) \<times> 'w" where
  "elevenlabs_Fetch fetch audioPath opts w =
     (let elevenlabsOpts =
            (case opts of
               ElevenLabsOptions (Some p) \<Rightarrow> p
             | _ \<Rightarrow> \<lparr>LanguageCode = [], TagAudioEvents = False\<rparr>)
      in case elevenlabs_Validate elevenlabsOpts of
           (_, Some err) \<Rightarrow> (Inl err, w)
         | (elevenlabsOpts, None) \<Rightarrow> fetch audioPath elevenlabsOpts w)"

definition jianying_Fetch ::
  "(jianying_Options, 'w) workflow \<Rightarrow> string \<Rightarrow> FetchOptions \<Rightarrow> 'w \<Rightarrow> (error + json) \<times> 'w" where
  "jianying_Fetch fetch audioPath opts w =
     (let jianyingOpts =
            (case opts of
               JianYingOptions (Some p) \<Rightarrow> p
             | _ \<Rightarrow> \<lparr>StartTime = Fin 0, EndTime = Fin 0\<rparr>)
      in case jianying_Validate jianyingOpts of
           (_, Some err) \<Rightarrow> (Inl err, w)
         | (jianyingOpts, None) \<Rightarrow> fetch audioPath jianyingOpts w)"

definition bijian_Fetch ::
  "(bijian_Options, 'w) workflow \<Rightarrow> string \<Rightarrow> FetchOptions \<Rightarrow> 'w \<Rightarrow> (error + json) \<times> 'w" where
  "bijian_Fetch fetch audioPath opts w =
     (let bijianOpts =
            (case opts of
               BijianOptions (Some p) \<Rightarrow> p
             | _ \<Rightarrow> \<lparr>Cookie = []\<rparr>)
      in case bijian_Validate bijianOpts of
           (_, Some err) \<Rightarrow> (Inl err, w)
         | (bijianOpts, None) \<Rightarrow> fetch audioPath bijianOpts w)"

section \<open>The network and the clock\<close>

record http_request =
  Method :: string
  URL :: string
  Header :: "(string \<times> string) list"
  Body :: "string option"

text \<open>A response: status, headers, the bytes of the body, and the error met while reading
  the body, if any.\<close>

record http_response =
  StatusCode :: int
  RespHeader :: "(string \<times> string) list"
  RespBody :: string
  ReadErr :: "error option"

text \<open>
  What a workflow does to the outside is recorded as a history of events: every call of
  \<open>client.Do\<close> is a \<open>Request\<close>, every \<open>time.Sleep\<close> a \<open>Sleep\<close> (in seconds).
\<close>

datatype event = is_Request: Request http_request | is_Sleep: Sleep nat

type_synonym history = "event list"

text \<open>
  The environment of a workflow.  The remote end, the context and the clock answer as a
  function of the history so far; \<open>ctx_Err\<close> is \<open>None\<close> while the context is not done and
  the context's error once it is.  The functions of the standard library that the
  workflows call are part of the environment too.
\<close>

record env =
  Marshal :: "json \<Rightarrow> error + string"
  Unmarshal :: "string \<Rightarrow> error + json_obj"
  Decode :: "http_response \<Rightarrow> error + json_obj"
  NewRequest :: "string \<Rightarrow> string \<Rightarrow> error option"
  Do :: "history \<Rightarrow> http_request \<Rightarrow> error + http_response"
  ctx_Err :: "history \<Rightarrow> error option"
  Now_Unix :: "history \<Rightarrow> int"
  md5 :: "string \<Rightarrow> string"

section \<open>Bijian: the task-status poll\<close>

definition bijian_apiQueryResult :: string where
  "bijian_apiQueryResult = ''https://member.bilibili.com/x/bcut/rubick-interface/task/result''"

text \<open>The request that \<open>queryResult\<close> builds: the URL with the task identifier, the
  user agent, and the cookie when the options have one.\<close>

definition bijian_queryRequest :: "string \<Rightarrow> bijian_Options \<Rightarrow> http_request" where
  "bijian_queryRequest taskID opts =
     (let url = bijian_apiQueryResult @ ''?model_id=7&task_id='' @ taskID;
          hdr = [(''User-Agent'', ''Bilibili/1.0.0 (https://www.bilibili.com)'')];
          hdr = (if Cookie opts \<noteq> [] then hdr @ [(''Cookie'', Cookie opts)] else hdr)
      in \<lparr>Method = ''GET'', URL = url, Header = hdr, Body = None\<rparr>)"

text \<open>\<open>queryResult\<close>: one GET request for the status of the task.\<close>

definition bijian_queryResult ::
  "env \<Rightarrow> string \<Rightarrow> bijian_Options \<Rightarrow> history \<Rightarrow> (error + json_obj) \<times> history" where
  "bijian_queryResult env taskID opts h =
     (let req = bijian_queryRequest taskID opts
      in case NewRequest env ''GET'' (URL req) of
           Some err \<Rightarrow> (Inl err, h)
         | None \<Rightarrow>
             (let h' = h @ [Request req]
              in (case Do env h req of
                    Inl err \<Rightarrow> (Inl err, h')
                  | Inr resp \<Rightarrow>
                      if StatusCode resp \<noteq> 200
                      then (Inl (APIError (StatusCode resp) (RespBody resp)), h')
                      else (case Decode env resp of
                              Inl err \<Rightarrow>
                                (Inl (Errorf ''failed to parse JSON response: %w'' (Some err)), h')
                            | Inr result \<Rightarrow> (Inr result, h')))))"

text \<open>
  \<open>pollResult\<close>: the loop \<open>for i := 0; i < 500; i++\<close>, from the value \<open>i\<close> of the counter
  on.
\<close>

function bijian_pollResult_from ::
  "env \<Rightarrow> string \<Rightarrow> bijian_Options \<Rightarrow> nat \<Rightarrow> history \<Rightarrow> (error + json_obj) \<times> history" where
  "bijian_pollResult_from env taskID opts i h =
     (if i < 500
      then (case ctx_Err env h of
              Some err \<Rightarrow> (Inl err, h)
            | None \<Rightarrow>
                (case bijian_queryResult env taskID opts h of
                   (Inl err, h') \<Rightarrow> (Inl err, h')
                 | (Inr resp, h') \<Rightarrow>
                     (case get_object resp ''data'' of
                        None \<Rightarrow> (Inl (Errorf ''missing data field in response'' None), h')
                      | Some data \<Rightarrow>
                          (case get_float64 data ''state'' of
                             None \<Rightarrow> (Inl (Errorf ''missing state in response'' None), h')
                           | Some state \<Rightarrow>
                               if f64_eq state (Fin 4)
                               then (case get_string data ''result'' of
                                       None \<Rightarrow>
                                         (Inl (Errorf ''missing result in response'' None), h')
                                     | Some resultStr \<Rightarrow>
                                         (case Unmarshal env resultStr of
                                            Inl err \<Rightarrow>
                                              (Inl (Errorf ''failed to parse result JSON: %w''
                                                      (Some err)), h')
                                          | Inr result \<Rightarrow> (Inr result, h')))
                               else bijian_pollResult_from env taskID opts (i + 1)
                                      (h' @ [Sleep 1])))))
      else (Inl (Errorf ''polling timeout after 500 attempts'' None), h))"
  by pat_completeness auto
termination
  by (relation "measure (\<lambda>(env, taskID, opts, i, h). 500 - i)") auto

declare bijian_pollResult_from.simps [simp del]

definition bijian_pollResult ::
  "env \<Rightarrow> string \<Rightarrow> bijian_Options \<Rightarrow> history \<Rightarrow> (error + json_obj) \<times> history" where
  "bijian_pollResult env taskID opts h = bijian_pollResult_from env taskID opts 0 h"

section \<open>JianYing: the task query\<close>

definition jianying_apiQuery :: string where
  "jianying_apiQuery = ''https://lv-pc-api-sinfonlinec.ulikecam.com/lv/v1/audio_subtitle/query''"

text \<open>\<open>fmt.Sprintf("%d", n)\<close>: the decimal digits of an integer, produced from the last
  digit to the first.\<close>

function decimal_digits :: "int \<Rightarrow> string \<Rightarrow> string" where
  "decimal_digits n ds =
     (let ds' = char_of (n mod 10 + 48) # ds
      in if n div 10 \<le> 0 then ds' else decimal_digits (n div 10) ds')"
  by pat_completeness auto
termination
  by (relation "measure (\<lambda>(n, ds). nat n)") auto

declare decimal_digits.simps [simp del]

definition Sprintf_d :: "int \<Rightarrow> string" where
  "Sprintf_d n = (if n < 0 then CHR ''-'' # decimal_digits (- n) [] else decimal_digits n [])"

text \<open>\<open>getStringField(m, key...)\<close>.\<close>

definition getStringField :: "json \<Rightarrow> string list \<Rightarrow> string" where
  "getStringField m key =
     (case m of
        JObj v \<Rightarrow> (case key of [] \<Rightarrow> [] | k # _ \<Rightarrow> string_or_zero v k)
      | JStr v \<Rightarrow> v
      | _ \<Rightarrow> [])"

text \<open>\<open>generateSign\<close> returns the signature and the device time; its error result is
  always \<open>nil\<close>.\<close>

definition generateSign :: "env \<Rightarrow> string \<Rightarrow> string \<Rightarrow> history \<Rightarrow> string \<times> string" where
  "generateSign env url tdid h =
     (let deviceTime = Sprintf_d (Now_Unix env h);
          pathname = url;
          v = (if 7 \<le> length pathname then drop (length pathname - 7) pathname else pathname);
          pf = ''4'';
          appVersion = ''6.6.0'';
          signString = ''9e2c|'' @ v @ ''|'' @ pf @ ''|'' @ appVersion @ ''|'' @ deviceTime
                       @ ''|'' @ tdid @ ''|11ac'';
          sign = md5 env signString
      in (sign, deviceTime))"

definition buildHeaders :: "string \<Rightarrow> string \<Rightarrow> string \<Rightarrow> (string \<times> string) list" where
  "buildHeaders sign deviceTime tdid =
     [(''User-Agent'',
       ''Cronet/TTNetVersion:d4572e53 2024-06-12 QuicVersion:4bf243e0 2023-04-17''),
      (''appvr'', ''6.6.0''),
      (''device-time'', deviceTime),
      (''pf'', ''4''),
      (''sign'', sign),
      (''sign-ver'', ''1''),
      (''tdid'', tdid)]"

text \<open>\<open>doRequest\<close>: one JSON request; the response must have status 200 and the field
  \<open>ret\<close> equal to \<open>"0"\<close>.\<close>

definition jianying_doRequest ::
  "env \<Rightarrow> string \<Rightarrow> string \<Rightarrow> json \<Rightarrow> (string \<times> string) list \<Rightarrow> history
     \<Rightarrow> (error + json_obj) \<times> history" where
  "jianying_doRequest env method url payload headers h =
     (case Marshal env payload of
        Inl err \<Rightarrow> (Inl err, h)
      | Inr jsonData \<Rightarrow>
     (case NewRequest env method url of
        Some err \<Rightarrow> (Inl err, h)
      | None \<Rightarrow>
          (let req = \<lparr>Method = method, URL = url,
                      Header = (''Content-Type'', ''application/json'') # headers,
                      Body = Some jsonData\<rparr>;
               h' = h @ [Request req]
           in (case Do env h req of
                 Inl err \<Rightarrow> (Inl err, h')
               | Inr resp \<Rightarrow>
                   (case ReadErr resp of
                      Some err \<Rightarrow> (Inl err, h')
                    | None \<Rightarrow>
                        (let body = RespBody resp
                         in if StatusCode resp \<noteq> 200
                            then (Inl (APIError (StatusCode resp) body), h')
                            else (case (if 0 < length body then Unmarshal env body else Inr []) of
                                    Inl err \<Rightarrow>
                                      (Inl (Errorf ''failed to parse JSON response: %w''
                                              (Some err)), h')
                                  | Inr result \<Rightarrow>
                                      (let ret = getStringField (JObj result) [''ret'']
                                       in if ret \<noteq> ''0''
                                          then (Inl (Errorf
                                                  (''API returned error: ret='' @ ret @ '', errmsg=''
                                                     @ getStringField (JObj result) [''errmsg''])
                                                  None), h')
                                          else (Inr result, h')))))))))"

text \<open>\<open>queryTask\<close>: the last step of the JianYing workflow.\<close>

definition jianying_queryTask ::
  "env \<Rightarrow> string \<Rightarrow> string \<Rightarrow> history \<Rightarrow> (error + json_obj) \<times> history" where
  "jianying_queryTask env queryID tdid h =
     (let payload = JObj [(''id'', JStr queryID),
                          (''pack_options'', JObj [(''need_attribute'', JBool True)])];
          (sign, deviceTime) = generateSign env ''/lv/v1/audio_subtitle/query'' tdid h;
          headers = buildHeaders sign deviceTime tdid
      in case jianying_doRequest env ''POST'' jianying_apiQuery payload headers h of
           (Inl err, h') \<Rightarrow> (Inl err, h')
         | (Inr resp, h') \<Rightarrow> (Inr resp, h'))"

section \<open>Notions used to state the properties\<close>

text \<open>The maps among the entries of a decoded JSON array.\<close>

definition json_objects :: "json list \<Rightarrow> json_obj list" where
  "json_objects xs = concat (map (\<lambda>j. case j of JObj m \<Rightarrow> [m] | _ \<Rightarrow> []) xs)"

text \<open>The raw word entries of a response, in order: for ElevenLabs the maps in \<open>words\<close>;
  for JianYing and Bijian the maps in the \<open>words\<close> array of every utterance that is a map.\<close>

definition elevenlabs_raw_words :: "json_obj \<Rightarrow> json_obj list" where
  "elevenlabs_raw_words response =
     (case get_array response ''words'' of Some wordsRaw \<Rightarrow> json_objects wordsRaw | None \<Rightarrow> [])"

definition utterance_raw_words :: "json list \<Rightarrow> json_obj list" where
  "utterance_raw_words utterancesRaw =
     concat (map (\<lambda>utt. case get_array utt ''words'' of
                           Some wordsRaw \<Rightarrow> json_objects wordsRaw
                         | None \<Rightarrow> [])
               (json_objects utterancesRaw))"

definition jianying_raw_words :: "json_obj \<Rightarrow> json_obj list" where
  "jianying_raw_words response =
     (case get_object response ''data'' of
        Some data \<Rightarrow>
          (case get_array data ''utterances'' of
             Some utterancesRaw \<Rightarrow> utterance_raw_words utterancesRaw
           | None \<Rightarrow> [])
      | None \<Rightarrow> [])"

definition bijian_raw_words :: "json_obj \<Rightarrow> json_obj list" where
  "bijian_raw_words response =
     (case get_array response ''utterances'' of
        Some utterancesRaw \<Rightarrow> utterance_raw_words utterancesRaw
      | None \<Rightarrow> [])"

text \<open>Two raw times are well timed when both are finite and \<open>0 \<le> start \<le> end\<close>.\<close>

definition well_timed :: "float64 \<Rightarrow> float64 \<Rightarrow> bool" where
  "well_timed s e = (case (s, e) of (Fin a, Fin b) \<Rightarrow> 0 \<le> a \<and> a \<le> b | _ \<Rightarrow> False)"

text \<open>The number a finite \<open>float64\<close> denotes (0 for a NaN or an infinity).\<close>

definition f64_value :: "float64 \<Rightarrow> rat" where
  "f64_value x = (case x of Fin q \<Rightarrow> q | _ \<Rightarrow> 0)"

text \<open>The invariant of a word of the canonical model: \<open>0 \<le> Start \<le> End\<close>.\<close>

definition Word_ordered :: "Word \<Rightarrow> bool" where
  "Word_ordered w = (0 \<le> sint (Start w) \<and> sint (Start w) \<le> sint (End w))"

text \<open>A status response of Bijian that is well formed and not terminal: \<open>data.state\<close> is
  a number other than 4.\<close>

definition bijian_pending :: "json_obj \<Rightarrow> bool" where
  "bijian_pending resp =
     (case get_object resp ''data'' of
        Some data \<Rightarrow>
          (case get_float64 data ''state'' of
             Some state \<Rightarrow> \<not> f64_eq state (Fin 4)
           | None \<Rightarrow> False)
      | None \<Rightarrow> False)"

text \<open>The events of \<open>k\<close> poll attempts that found the task pending: each one request
  followed by a sleep of one second.\<close>

definition bijian_attempts :: "string \<Rightarrow> bijian_Options \<Rightarrow> nat \<Rightarrow> history" where
  "bijian_attempts taskID opts k =
     concat (replicate k [Request (bijian_queryRequest taskID opts), Sleep 1])"

section \<open>Concrete inputs\<close>

text \<open>The raw response of the example in the specification, as decoded from its JSON
  text.\<close>

definition elevenlabs_example :: json_obj where
  "elevenlabs_example =
     [(''text'', JStr ''hi there''),
      (''words'', JArr
         [JObj [(''text'', JStr ''hi''), (''start'', json_number 0),
                (''end'', json_number (4 / 10)), (''speaker_id'', JStr ''A'')],
          JObj [(''text'', JStr ''there''), (''start'', json_number (4 / 10)),
                (''end'', json_number (9 / 10))]]),
      (''language_code'', JStr ''en'')]"

text \<open>
  An environment to run the workflows on: every request is answered with status 200; the
  body is \<open>done\<close> once \<open>done_at\<close> requests have been made before, and \<open>pending\<close> until
  then (always, when \<open>done_at\<close> is \<open>None\<close>); the context is cancelled once \<open>cancel_at\<close>
  sleeps have passed (never, when it is \<open>None\<close>).
\<close>

definition scripted_env :: "nat option \<Rightarrow> nat option \<Rightarrow> env" where
  "scripted_env done_at cancel_at =
     \<lparr>Marshal = (\<lambda>payload. Inr ''{}''),
      Unmarshal = (\<lambda>s. Inr [(''ret'', JStr ''0''), (''raw'', JStr s)]),
      Decode = (\<lambda>resp.
         if RespBody resp = ''done''
         then Inr [(''data'', JObj [(''state'', JNum (Fin 4)), (''result'', JStr ''transcript'')])]
         else Inr [(''data'', JObj [(''state'', JNum (Fin 1))])]),
      NewRequest = (\<lambda>method url. None),
      Do = (\<lambda>h req.
         Inr \<lparr>StatusCode = 200, RespHeader = [],
              RespBody = (case done_at of
                            Some n \<Rightarrow> (if n \<le> length (filter is_Request h)
                                       then ''done'' else ''pending'')
                          | None \<Rightarrow> ''pending''),
              ReadErr = None\<rparr>),
      ctx_Err = (\<lambda>h. case cancel_at of
                        Some k \<Rightarrow> (if k \<le> length (filter is_Sleep h) then Some Canceled else None)
                      | None \<Rightarrow> None),
      Now_Unix = (\<lambda>h. 1700000000),
      md5 = (\<lambda>s. ''00000000000000000000000000000000'')\<rparr>"


section \<open>Facts about the model of float64\<close>

lemma pow2_eq: "pow2 e = power_int 2 e"
  by (simp add: pow2_def power_int_def inverse_eq_divide power_one_over)

lemma pow2_pos [simp]: "0 < pow2 e"
  by (simp add: pow2_eq)

lemma pow2_nonneg [simp]: "0 \<le> pow2 e"
  by (simp add: pow2_eq)

lemma pow2_add: "pow2 (a + b) = pow2 a * pow2 b"
  by (simp add: pow2_eq power_int_add)

lemma pow2_mono: "a \<le> b \<Longrightarrow> pow2 a \<le> pow2 b"
  by (simp add: pow2_eq power_int_increasing)

lemma pow2_strict_mono: "a < b \<Longrightarrow> pow2 a < pow2 b"
  by (simp add: pow2_eq power_int_strict_increasing)

lemma pow2_nat: "pow2 (int n) = 2 ^ n"
  by (simp add: pow2_def)

lemma bit_length_nonneg: "0 \<le> bit_length n"
  by (induction n rule: bit_length.induct) (simp add: bit_length.simps)

lemma bit_length_bounds:
  "0 < n \<Longrightarrow> 2 ^ nat (bit_length n - 1) \<le> n \<and> n < 2 ^ nat (bit_length n)"
proof (induction n rule: bit_length.induct)
  case (1 n)
  show ?case
  proof (cases "n = 1")
    case True
    then show ?thesis by (simp add: bit_length.simps)
  next
    case False
    with "1.prems" have pos: "0 < n div 2" by simp
    from "1.IH" [OF "1.prems" pos]
    have lo: "2 ^ nat (bit_length (n div 2) - 1) \<le> n div 2"
      and hi: "n div 2 < 2 ^ nat (bit_length (n div 2))" by simp_all
    have bl: "bit_length n = bit_length (n div 2) + 1"
      using "1.prems" by (subst bit_length.simps) simp
    have ge1: "1 \<le> bit_length (n div 2)"
      using pos bit_length_nonneg [of "n div 2 div 2"] by (subst bit_length.simps) simp
    have e1: "nat (bit_length (n div 2)) = Suc (nat (bit_length (n div 2) - 1))"
      using ge1 by simp
    have "2 ^ nat (bit_length n - 1) = (2::int) ^ nat (bit_length (n div 2))"
      by (simp add: bl)
    also have "\<dots> = 2 * 2 ^ nat (bit_length (n div 2) - 1)"
      by (subst e1) simp
    also have "\<dots> \<le> 2 * (n div 2)" using lo by simp
    also have "\<dots> \<le> n" by simp
    finally have L: "2 ^ nat (bit_length n - 1) \<le> n" .
    have "n < 2 * (n div 2) + 2" by presburger
    also have "\<dots> \<le> 2 * 2 ^ nat (bit_length (n div 2))" using hi by simp
    also have "\<dots> = 2 ^ nat (bit_length n)"
      using bit_length_nonneg [of "n div 2"] by (simp add: bl nat_add_distrib)
    finally show ?thesis using L by simp
  qed
qed

lemma bit_length_pos: "0 < n \<Longrightarrow> 1 \<le> bit_length n"
  using bit_length_nonneg [of "n div 2"] by (subst bit_length.simps) simp

lemma pow2_of_int: "0 \<le> e \<Longrightarrow> pow2 e = of_int (2 ^ nat e)"
  by (simp add: pow2_def)

lemma bit_length_pow2_bounds:
  assumes "0 < n"
  shows "pow2 (bit_length n - 1) \<le> of_int n" and "of_int n < pow2 (bit_length n)"
proof -
  have b1: "0 \<le> bit_length n - 1" and b0: "0 \<le> bit_length n"
    using bit_length_pos [OF assms] by simp_all
  from bit_length_bounds [OF assms]
  have lo: "2 ^ nat (bit_length n - 1) \<le> n" and hi: "n < 2 ^ nat (bit_length n)"
    by blast+
  show "pow2 (bit_length n - 1) \<le> of_int n"
    unfolding pow2_of_int [OF b1] using lo by (simp only: of_int_le_iff)
  show "of_int n < pow2 (bit_length n)"
    unfolding pow2_of_int [OF b0] using hi by (simp only: of_int_less_iff)
qed

lemma ilog2_bounds:
  assumes "0 < a"
  shows "pow2 (ilog2 a) \<le> a" and "a < pow2 (ilog2 a + 1)"
proof -
  obtain n d where q: "quotient_of a = (n, d)" by (cases "quotient_of a")
  have d: "0 < d" using q by (rule quotient_of_denom_pos)
  have a: "a = of_int n / of_int d" using q by (rule quotient_of_div)
  have n: "0 < n" using assms d a by (simp add: zero_less_divide_iff)
  define bn where "bn = bit_length n"
  define bd where "bd = bit_length d"
  have nlo: "pow2 (bn - 1) \<le> of_int n" and nhi: "of_int n < pow2 bn"
    unfolding bn_def using bit_length_pow2_bounds [OF n] by blast+
  have dlo: "pow2 (bd - 1) \<le> of_int d" and dhi: "of_int d < pow2 bd"
    unfolding bd_def using bit_length_pow2_bounds [OF d] by blast+
  have dpos: "(0::rat) < of_int d" using d by simp
  have lo: "pow2 (bn - bd - 1) < a"
  proof -
    have "pow2 (bn - bd - 1) * of_int d < pow2 (bn - bd - 1) * pow2 bd"
      using dhi by simp
    also have "\<dots> = pow2 (bn - 1)" by (simp add: pow2_add [symmetric])
    also have "\<dots> \<le> of_int n" by (rule nlo)
    finally show ?thesis using dpos by (simp add: a pos_less_divide_eq)
  qed
  have hi: "a < pow2 (bn - bd + 1)"
  proof -
    have "of_int n < pow2 bn" by (rule nhi)
    also have "\<dots> = pow2 (bn - bd + 1) * pow2 (bd - 1)" by (simp add: pow2_add [symmetric])
    also have "\<dots> \<le> pow2 (bn - bd + 1) * of_int d" using dlo by simp
    finally show ?thesis using dpos by (simp add: a pos_divide_less_eq)
  qed
  have il: "ilog2 a = (if pow2 (bn - bd) \<le> a then bn - bd else bn - bd - 1)"
    by (simp add: ilog2_def q bn_def bd_def Let_def)
  show "pow2 (ilog2 a) \<le> a" using lo by (simp add: il)
  show "a < pow2 (ilog2 a + 1)" using hi by (simp add: il)
qed

lemma ilog2_mono:
  assumes "0 < a" "a \<le> b"
  shows "ilog2 a \<le> ilog2 b"
proof (rule ccontr)
  assume "\<not> ilog2 a \<le> ilog2 b"
  then have "ilog2 b + 1 \<le> ilog2 a" by simp
  then have "pow2 (ilog2 b + 1) \<le> pow2 (ilog2 a)" by (rule pow2_mono)
  also have "\<dots> \<le> a" using assms(1) by (rule ilog2_bounds)
  also have "\<dots> \<le> b" by fact
  also have "\<dots> < pow2 (ilog2 b + 1)" using assms by (intro ilog2_bounds) simp
  finally show False by simp
qed

lemma round_half_even_of_int [simp]: "round_half_even (of_int n) = n"
  by (simp add: round_half_even_def)

lemma round_half_even_cases:
  "round_half_even x = \<lfloor>x\<rfloor> \<or> round_half_even x = \<lfloor>x\<rfloor> + 1"
  by (simp add: round_half_even_def Let_def)

lemma round_half_even_mono:
  assumes "x \<le> y"
  shows "round_half_even x \<le> round_half_even y"
proof (cases "\<lfloor>x\<rfloor> = \<lfloor>y\<rfloor>")
  case True
  then have "x - of_int \<lfloor>x\<rfloor> \<le> y - of_int \<lfloor>y\<rfloor>" using assms by simp
  then show ?thesis using True by (auto simp: round_half_even_def Let_def)
next
  case False
  then have "\<lfloor>x\<rfloor> + 1 \<le> \<lfloor>y\<rfloor>" using floor_mono [OF assms] by simp
  moreover have "round_half_even x \<le> \<lfloor>x\<rfloor> + 1"
    using round_half_even_cases [of x] by auto
  moreover have "\<lfloor>y\<rfloor> \<le> round_half_even y"
    using round_half_even_cases [of y] by auto
  ultimately show ?thesis by linarith
qed

lemma f64_exponent_mono: "0 < a \<Longrightarrow> a \<le> b \<Longrightarrow> f64_exponent a \<le> f64_exponent b"
  using ilog2_mono [of a b] by (simp add: f64_exponent_def)

lemma f64_round_mag_nonneg: "0 \<le> a \<Longrightarrow> 0 \<le> f64_round_mag a"
proof -
  assume "0 \<le> a"
  then have "0 \<le> a / pow2 (f64_exponent a)" by simp
  then have "round_half_even (of_int 0) \<le> round_half_even (a / pow2 (f64_exponent a))"
    by (intro round_half_even_mono) simp
  then have "0 \<le> round_half_even (a / pow2 (f64_exponent a))"
    by (simp only: round_half_even_of_int)
  then show ?thesis by (simp add: f64_round_mag_def)
qed

lemma f64_round_mag_upper:
  assumes "0 < a"
  shows "f64_round_mag a \<le> pow2 (53 + f64_exponent a)"
proof -
  let ?e = "f64_exponent a"
  have "a < pow2 (ilog2 a + 1)" using assms by (rule ilog2_bounds)
  also have "\<dots> \<le> pow2 (53 + ?e)"
    by (rule pow2_mono) (simp add: f64_exponent_def)
  also have "\<dots> = pow2 53 * pow2 ?e" by (rule pow2_add)
  finally have "a / pow2 ?e \<le> pow2 53" by (simp add: pos_divide_le_eq)
  also have "pow2 53 = of_int (2 ^ 53)" by (simp add: pow2_def)
  finally have "round_half_even (a / pow2 ?e) \<le> round_half_even (of_int (2 ^ 53))"
    by (rule round_half_even_mono)
  then have "round_half_even (a / pow2 ?e) \<le> 2 ^ 53"
    by (simp only: round_half_even_of_int)
  then have "(of_int (round_half_even (a / pow2 ?e)) :: rat) \<le> of_int (2 ^ 53)"
    by (simp only: of_int_le_iff)
  then have "f64_round_mag a \<le> of_int (2 ^ 53) * pow2 ?e"
    unfolding f64_round_mag_def by (intro mult_right_mono) simp_all
  also have "of_int (2 ^ 53) = pow2 53" by (simp add: pow2_def)
  finally show ?thesis by (simp add: pow2_add)
qed

lemma f64_round_mag_lower:
  assumes "0 < b" and "- 1074 < f64_exponent b"
  shows "pow2 (52 + f64_exponent b) \<le> f64_round_mag b"
proof -
  let ?e = "f64_exponent b"
  have e: "?e = ilog2 b - 52" using assms(2) by (simp add: f64_exponent_def max_def split: if_splits)
  have "pow2 52 * pow2 ?e = pow2 (ilog2 b)" by (simp add: pow2_add [symmetric] e)
  also have "\<dots> \<le> b" using assms(1) by (rule ilog2_bounds)
  finally have "pow2 52 \<le> b / pow2 ?e" by (simp add: pos_le_divide_eq)
  moreover have "pow2 52 = of_int (2 ^ 52)" by (simp add: pow2_def)
  ultimately have "round_half_even (of_int (2 ^ 52)) \<le> round_half_even (b / pow2 ?e)"
    by (intro round_half_even_mono) simp
  then have "2 ^ 52 \<le> round_half_even (b / pow2 ?e)"
    by (simp only: round_half_even_of_int)
  then have "(of_int (2 ^ 52) :: rat) \<le> of_int (round_half_even (b / pow2 ?e))"
    by (simp only: of_int_le_iff)
  then have "of_int (2 ^ 52) * pow2 ?e \<le> f64_round_mag b"
    unfolding f64_round_mag_def by (intro mult_right_mono) simp_all
  moreover have "of_int (2 ^ 52) = pow2 52" by (simp add: pow2_def)
  ultimately show ?thesis by (simp add: pow2_add)
qed

lemma f64_round_mag_mono:
  assumes "0 < a" and "a \<le> b"
  shows "f64_round_mag a \<le> f64_round_mag b"
proof (cases "f64_exponent a = f64_exponent b")
  case True
  have "a / pow2 (f64_exponent b) \<le> b / pow2 (f64_exponent b)"
    using assms(2) by (simp add: divide_right_mono)
  then have "round_half_even (a / pow2 (f64_exponent b)) \<le> round_half_even (b / pow2 (f64_exponent b))"
    by (rule round_half_even_mono)
  then have "(of_int (round_half_even (a / pow2 (f64_exponent b))) :: rat)
               \<le> of_int (round_half_even (b / pow2 (f64_exponent b)))"
    by (simp only: of_int_le_iff)
  then show ?thesis
    unfolding f64_round_mag_def True by (intro mult_right_mono) simp_all
next
  case False
  then have lt: "f64_exponent a < f64_exponent b"
    using f64_exponent_mono [OF assms] by simp
  have b: "0 < b" using assms by simp
  have "- 1074 \<le> f64_exponent a" by (simp add: f64_exponent_def)
  then have sub: "- 1074 < f64_exponent b" using lt by simp
  have "f64_round_mag a \<le> pow2 (53 + f64_exponent a)"
    using assms(1) by (rule f64_round_mag_upper)
  also have "\<dots> \<le> pow2 (52 + f64_exponent b)"
    by (rule pow2_mono) (use lt in simp)
  also have "\<dots> \<le> f64_round_mag b" using b sub by (rule f64_round_mag_lower)
  finally show ?thesis .
qed

lemma f64_round_nonneg_mono:
  assumes "0 \<le> a" and "a \<le> b" and "f64_round b = Fin rb"
  shows "\<exists>ra. f64_round a = Fin ra \<and> 0 \<le> ra \<and> ra \<le> rb"
proof (cases "a = 0")
  case True
  have "0 \<le> rb"
  proof (cases "b = 0")
    case True
    then show ?thesis using assms(3) by (simp add: f64_round_def)
  next
    case False
    then have "0 < b" using assms by simp
    then have "rb = f64_round_mag b"
      using assms(3) by (simp add: f64_round_def Let_def split: if_splits)
    then show ?thesis using \<open>0 < b\<close> by (simp add: f64_round_mag_nonneg)
  qed
  then show ?thesis using True by (simp add: f64_round_def)
next
  case False
  then have a: "0 < a" using assms by simp
  then have b: "0 < b" using assms by simp
  have rb: "rb = f64_round_mag b" and nb: "\<not> pow2 1024 \<le> f64_round_mag b"
    using assms(3) b by (simp_all add: f64_round_def Let_def split: if_splits)
  have le: "f64_round_mag a \<le> f64_round_mag b" using a assms(2) by (rule f64_round_mag_mono)
  then have "\<not> pow2 1024 \<le> f64_round_mag a" using nb by simp
  then have "f64_round a = Fin (f64_round_mag a)"
    using a by (simp add: f64_round_def Let_def)
  then show ?thesis using le rb a by (simp add: f64_round_mag_nonneg)
qed

text \<open>The rounding is to a nearest multiple of the unit in the last place, with a
  significand of at most 53 bits.\<close>

lemma pow2_nonzero: "pow2 e \<noteq> 0"
  using pow2_pos [of e] by (simp del: pow2_pos)

lemma round_half_even_nearest: "\<bar>of_int (round_half_even x) - x\<bar> \<le> 1 / 2"
proof -
  have "of_int \<lfloor>x\<rfloor> \<le> x" and "x < of_int \<lfloor>x\<rfloor> + 1" by linarith+
  then show ?thesis
    by (auto simp: round_half_even_def Let_def abs_le_iff)
qed

lemma f64_round_mag_nearest:
  "\<bar>f64_round_mag a - a\<bar> \<le> pow2 (f64_exponent a) / 2"
proof -
  let ?u = "pow2 (f64_exponent a)"
  have u: "0 < ?u" by simp
  have "f64_round_mag a - a = (of_int (round_half_even (a / ?u)) - a / ?u) * ?u"
    by (simp add: f64_round_mag_def left_diff_distrib pow2_nonzero)
  then have "\<bar>f64_round_mag a - a\<bar> = \<bar>of_int (round_half_even (a / ?u)) - a / ?u\<bar> * ?u"
    using u by (simp add: abs_mult)
  also have "\<dots> \<le> 1 / 2 * ?u"
    by (intro mult_right_mono round_half_even_nearest) simp
  finally show ?thesis by simp
qed

lemma f64_round_mag_significand:
  "0 < a \<Longrightarrow> round_half_even (a / pow2 (f64_exponent a)) \<le> 2 ^ 53"
proof -
  assume a: "0 < a"
  let ?e = "f64_exponent a"
  have "a < pow2 (ilog2 a + 1)" using a by (rule ilog2_bounds)
  also have "\<dots> \<le> pow2 (53 + ?e)"
    by (rule pow2_mono) (simp add: f64_exponent_def)
  also have "\<dots> = pow2 53 * pow2 ?e" by (rule pow2_add)
  finally have "a / pow2 ?e \<le> pow2 53" by (simp add: pos_divide_le_eq)
  also have "pow2 53 = of_int (2 ^ 53)" by (simp add: pow2_def)
  finally have "round_half_even (a / pow2 ?e) \<le> round_half_even (of_int (2 ^ 53))"
    by (rule round_half_even_mono)
  then show ?thesis by (simp only: round_half_even_of_int)
qed

lemma trunc_mono:
  assumes "x \<le> y"
  shows "trunc x \<le> trunc y"
proof (cases "0 \<le> x")
  case True
  then show ?thesis using assms by (simp add: trunc_def floor_mono)
next
  case False
  then have "\<lceil>x\<rceil> \<le> 0" by (simp add: ceiling_le_iff)
  show ?thesis
  proof (cases "0 \<le> y")
    case True
    then have "0 \<le> \<lfloor>y\<rfloor>" by simp
    moreover have "trunc x = \<lceil>x\<rceil>" using False by (simp add: trunc_def)
    moreover have "trunc y = \<lfloor>y\<rfloor>" using True by (simp add: trunc_def)
    ultimately show ?thesis using \<open>\<lceil>x\<rceil> \<le> 0\<close> by linarith
  next
    case False
    then show ?thesis using assms \<open>\<not> 0 \<le> x\<close> by (simp add: trunc_def ceiling_mono)
  qed
qed

lemma trunc_nonneg: "0 \<le> x \<Longrightarrow> 0 \<le> trunc x"
  by (simp add: trunc_def)

lemma sint_int64_of_int:
  "- (2 ^ 63) \<le> t \<Longrightarrow> t < 2 ^ 63 \<Longrightarrow> sint (word_of_int t :: int64) = t"
  by (simp add: sint_sbintrunc' signed_take_bit_int_eq_self)

lemma sint_int64_of_float64:
  "fits_int64 (Fin q) \<Longrightarrow> sint (int64_of_float64 impl (Fin q)) = trunc q"
  by (simp add: int64_of_float64_def fits_int64_def sint_int64_of_int)

lemma conv_ordered:
  assumes "0 \<le> a" and "a \<le> b" and "fits_int64 (Fin b)"
  shows "0 \<le> sint (int64_of_float64 impl (Fin a))"
    and "sint (int64_of_float64 impl (Fin a)) \<le> sint (int64_of_float64 impl (Fin b))"
proof -
  have ta: "0 \<le> trunc a" using assms(1) by (rule trunc_nonneg)
  have tab: "trunc a \<le> trunc b" using assms(2) by (rule trunc_mono)
  have "fits_int64 (Fin a)" using ta tab assms(3) by (simp add: fits_int64_def)
  then have sa: "sint (int64_of_float64 impl (Fin a)) = trunc a"
    by (rule sint_int64_of_float64)
  have sb: "sint (int64_of_float64 impl (Fin b)) = trunc b"
    using assms(3) by (rule sint_int64_of_float64)
  show "0 \<le> sint (int64_of_float64 impl (Fin a))" using ta sa by simp
  show "sint (int64_of_float64 impl (Fin a)) \<le> sint (int64_of_float64 impl (Fin b))"
    using tab sa sb by simp
qed

lemma mul1000_ordered:
  assumes "0 \<le> a" and "a \<le> b" and "fits_int64 (f64_mul (Fin b) (Fin 1000))"
  shows "0 \<le> sint (int64_of_float64 impl (f64_mul (Fin a) (Fin 1000)))"
    and "sint (int64_of_float64 impl (f64_mul (Fin a) (Fin 1000)))
           \<le> sint (int64_of_float64 impl (f64_mul (Fin b) (Fin 1000)))"
proof -
  obtain rb where rb: "f64_round (b * 1000) = Fin rb"
    using assms(3) by (cases "f64_round (b * 1000)") (simp_all add: fits_int64_def)
  have "0 \<le> a * 1000" and "a * 1000 \<le> b * 1000" using assms by simp_all
  from f64_round_nonneg_mono [OF this rb]
  obtain ra where ra: "f64_round (a * 1000) = Fin ra" and r: "0 \<le> ra" "ra \<le> rb" by blast
  have fb: "fits_int64 (Fin rb)" using assms(3) rb by simp
  show "0 \<le> sint (int64_of_float64 impl (f64_mul (Fin a) (Fin 1000)))"
    using conv_ordered(1) [OF r fb] by (simp add: ra)
  show "sint (int64_of_float64 impl (f64_mul (Fin a) (Fin 1000)))
           \<le> sint (int64_of_float64 impl (f64_mul (Fin b) (Fin 1000)))"
    using conv_ordered(2) [OF r fb] by (simp add: ra rb)
qed


section \<open>Facts about the normalisers\<close>

lemma json_objects_simps [simp]:
  "json_objects [] = []"
  "json_objects (JObj m # xs) = m # json_objects xs"
  "json_objects (JNull # xs) = json_objects xs"
  "json_objects (JBool b # xs) = json_objects xs"
  "json_objects (JNum x # xs) = json_objects xs"
  "json_objects (JStr s # xs) = json_objects xs"
  "json_objects (JArr ys # xs) = json_objects xs"
  by (simp_all add: json_objects_def)

lemma elevenlabs_words_eq:
  "elevenlabs_words impl wordsRaw ws = ws @ map (elevenlabs_word impl) (json_objects wordsRaw)"
  by (induction impl wordsRaw ws rule: elevenlabs_words.induct) simp_all

lemma jianying_words_eq:
  "jianying_words impl wordsRaw ws = ws @ map (jianying_word impl) (json_objects wordsRaw)"
  by (induction impl wordsRaw ws rule: jianying_words.induct) simp_all

lemma bijian_words_eq:
  "bijian_words impl wordsRaw ws = ws @ map (bijian_word impl) (json_objects wordsRaw)"
  by (induction impl wordsRaw ws rule: bijian_words.induct) simp_all

lemma utterance_raw_words_simps [simp]:
  "utterance_raw_words [] = []"
  "utterance_raw_words (JObj utt # us) =
     (case get_array utt ''words'' of Some wordsRaw \<Rightarrow> json_objects wordsRaw | None \<Rightarrow> [])
     @ utterance_raw_words us"
  "utterance_raw_words (JNull # us) = utterance_raw_words us"
  "utterance_raw_words (JBool b # us) = utterance_raw_words us"
  "utterance_raw_words (JNum x # us) = utterance_raw_words us"
  "utterance_raw_words (JStr s # us) = utterance_raw_words us"
  "utterance_raw_words (JArr ys # us) = utterance_raw_words us"
  by (simp_all add: utterance_raw_words_def)

lemma jianying_utterance_Words:
  "Words (snd (jianying_utterance impl utt st)) =
     Words (snd st) @ map (jianying_word impl)
       (case get_array utt ''words'' of Some wordsRaw \<Rightarrow> json_objects wordsRaw | None \<Rightarrow> [])"
  by (simp add: jianying_utterance_def Let_def jianying_words_eq split: option.splits)

lemma jianying_utterances_Words:
  "Words (snd (jianying_utterances impl us st)) =
     Words (snd st) @ map (jianying_word impl) (utterance_raw_words us)"
  by (induction impl us st rule: jianying_utterances.induct)
     (simp_all add: jianying_utterance_Words)

lemma bijian_utterance_Words:
  "Words (snd (bijian_utterance impl utt st)) =
     Words (snd st) @ map (bijian_word impl)
       (case get_array utt ''words'' of Some wordsRaw \<Rightarrow> json_objects wordsRaw | None \<Rightarrow> [])"
  by (simp add: bijian_utterance_def Let_def bijian_words_eq split: option.splits)

lemma bijian_utterances_Words:
  "Words (snd (bijian_utterances impl us st)) =
     Words (snd st) @ map (bijian_word impl) (utterance_raw_words us)"
  by (induction impl us st rule: bijian_utterances.induct)
     (simp_all add: bijian_utterance_Words)

lemma elevenlabs_parse_Words:
  "elevenlabs_parse impl r = Inr res \<Longrightarrow>
     Words res = map (elevenlabs_word impl) (elevenlabs_raw_words r)"
  by (auto simp: elevenlabs_parse_def elevenlabs_raw_words_def elevenlabs_words_eq Let_def
           split: option.splits if_splits)

lemma jianying_parse_Words:
  "jianying_parse impl r = Inr res \<Longrightarrow>
     Words res = map (jianying_word impl) (jianying_raw_words r)"
  by (auto simp: jianying_parse_def jianying_raw_words_def jianying_utterances_Words Let_def
           split: option.splits if_splits)

lemma bijian_parse_Words:
  "bijian_parse impl r = Inr res \<Longrightarrow>
     Words res = map (bijian_word impl) (bijian_raw_words r)"
  by (auto simp: bijian_parse_def bijian_raw_words_def bijian_utterances_Words Let_def
           split: option.splits if_splits)

lemma elevenlabs_Parse_outcomes:
  "(\<exists>msg. elevenlabs_Parse impl raw = Inl (ParseError msg None))
     \<or> (\<exists>res. elevenlabs_Parse impl raw = Inr res \<and> Words res \<noteq> [])"
  by (auto simp: elevenlabs_Parse_def elevenlabs_parse_def Let_def split: json.splits option.splits)

lemma jianying_Parse_outcomes:
  "(\<exists>msg. jianying_Parse impl raw = Inl (ParseError msg None))
     \<or> (\<exists>res. jianying_Parse impl raw = Inr res \<and> Words res \<noteq> [])"
  by (auto simp: jianying_Parse_def jianying_parse_def Let_def split: json.splits option.splits)

lemma bijian_Parse_outcomes:
  "(\<exists>msg. bijian_Parse impl raw = Inl (ParseError msg None))
     \<or> (\<exists>res. bijian_Parse impl raw = Inr res \<and> Words res \<noteq> [])"
  by (auto simp: bijian_Parse_def bijian_parse_def Let_def split: json.splits option.splits)

lemma elevenlabs_word_times:
  "Start (elevenlabs_word impl w)
     = int64_of_float64 impl (f64_mul (float64_or_zero w ''start'') (Fin 1000))"
  "End (elevenlabs_word impl w)
     = int64_of_float64 impl (f64_mul (float64_or_zero w ''end'') (Fin 1000))"
  by (simp_all add: elevenlabs_word_def Let_def split: option.splits del: f64_mul.simps)

lemma jianying_word_times:
  "Start (jianying_word impl w) = int64_of_float64 impl (float64_or_zero w ''start_time'')"
  "End (jianying_word impl w) = int64_of_float64 impl (float64_or_zero w ''end_time'')"
  by (simp_all add: jianying_word_def Let_def split: option.splits)

lemma bijian_word_times:
  "Start (bijian_word impl w) = int64_of_float64 impl (float64_or_zero w ''start_time'')"
  "End (bijian_word impl w) = int64_of_float64 impl (float64_or_zero w ''end_time'')"
  by (simp_all add: bijian_word_def Let_def)

lemma well_timedE:
  assumes "well_timed s e"
  obtains a b where "s = Fin a" and "e = Fin b" and "0 \<le> a" and "a \<le> b"
  using assms by (cases s; cases e) (simp_all add: well_timed_def)

lemma elevenlabs_word_ordered:
  assumes "well_timed (float64_or_zero w ''start'') (float64_or_zero w ''end'')"
    and "fits_int64 (f64_mul (float64_or_zero w ''end'') (Fin 1000))"
  shows "Word_ordered (elevenlabs_word impl w)"
proof -
  from assms(1) obtain a b where ab: "float64_or_zero w ''start'' = Fin a"
    "float64_or_zero w ''end'' = Fin b" "0 \<le> a" "a \<le> b"
    by (rule well_timedE)
  have fit: "fits_int64 (f64_mul (Fin b) (Fin 1000))" using assms(2) ab(2) by simp
  show ?thesis
    unfolding Word_ordered_def elevenlabs_word_times ab(1,2)
    using mul1000_ordered [OF ab(3,4) fit] by blast
qed

lemma direct_word_ordered:
  assumes "well_timed (float64_or_zero w ''start_time'') (float64_or_zero w ''end_time'')"
    and "fits_int64 (float64_or_zero w ''end_time'')"
  shows "Word_ordered (jianying_word impl w)" and "Word_ordered (bijian_word impl w)"
proof -
  from assms(1) obtain a b where ab: "float64_or_zero w ''start_time'' = Fin a"
    "float64_or_zero w ''end_time'' = Fin b" "0 \<le> a" "a \<le> b"
    by (rule well_timedE)
  have fit: "fits_int64 (Fin b)" using assms(2) ab(2) by simp
  show "Word_ordered (jianying_word impl w)"
    unfolding Word_ordered_def jianying_word_times ab(1,2)
    using conv_ordered [OF ab(3,4) fit] by blast
  show "Word_ordered (bijian_word impl w)"
    unfolding Word_ordered_def bijian_word_times ab(1,2)
    using conv_ordered [OF ab(3,4) fit] by blast
qed

lemma mul1000_fits:
  assumes "0 \<le> a" and "a \<le> b" and "fits_int64 (f64_mul (Fin b) (Fin 1000))"
  shows "fits_int64 (f64_mul (Fin a) (Fin 1000))"
proof -
  obtain rb where rb: "f64_round (b * 1000) = Fin rb"
    using assms(3) by (cases "f64_round (b * 1000)") (simp_all add: fits_int64_def)
  have "0 \<le> a * 1000" and "a * 1000 \<le> b * 1000" using assms by simp_all
  from f64_round_nonneg_mono [OF this rb]
  obtain ra where ra: "f64_round (a * 1000) = Fin ra" and r: "0 \<le> ra" "ra \<le> rb" by blast
  have "0 \<le> trunc ra" using r(1) by (rule trunc_nonneg)
  moreover have "trunc ra \<le> trunc rb" using r(2) by (rule trunc_mono)
  moreover have "trunc rb < 2 ^ 63" using assms(3) rb by (simp add: fits_int64_def)
  ultimately show ?thesis by (simp add: ra fits_int64_def)
qed

lemma sint_int64_of_float64_value:
  "fits_int64 x \<Longrightarrow> sint (int64_of_float64 impl x) = trunc (f64_value x)"
  by (cases x) (simp_all add: sint_int64_of_float64 f64_value_def fits_int64_def)

lemma elevenlabs_word_ms:
  assumes "well_timed (float64_or_zero w ''start'') (float64_or_zero w ''end'')"
    and "fits_int64 (f64_mul (float64_or_zero w ''end'') (Fin 1000))"
  shows "sint (Start (elevenlabs_word impl w))
           = trunc (f64_value (f64_mul (float64_or_zero w ''start'') (Fin 1000)))"
    and "sint (End (elevenlabs_word impl w))
           = trunc (f64_value (f64_mul (float64_or_zero w ''end'') (Fin 1000)))"
proof -
  from assms(1) obtain a b where ab: "float64_or_zero w ''start'' = Fin a"
    "float64_or_zero w ''end'' = Fin b" "0 \<le> a" "a \<le> b"
    by (rule well_timedE)
  have fb: "fits_int64 (f64_mul (Fin b) (Fin 1000))" using assms(2) ab(2) by simp
  have fa: "fits_int64 (f64_mul (Fin a) (Fin 1000))" using ab(3,4) fb by (rule mul1000_fits)
  show "sint (Start (elevenlabs_word impl w))
           = trunc (f64_value (f64_mul (float64_or_zero w ''start'') (Fin 1000)))"
    unfolding elevenlabs_word_times ab(1) using fa by (rule sint_int64_of_float64_value)
  show "sint (End (elevenlabs_word impl w))
           = trunc (f64_value (f64_mul (float64_or_zero w ''end'') (Fin 1000)))"
    unfolding elevenlabs_word_times ab(2) using fb by (rule sint_int64_of_float64_value)
qed

lemma direct_word_ms:
  assumes "well_timed (float64_or_zero w ''start_time'') (float64_or_zero w ''end_time'')"
    and "fits_int64 (float64_or_zero w ''end_time'')"
  shows "sint (Start (jianying_word impl w)) = trunc (f64_value (float64_or_zero w ''start_time''))"
    and "sint (End (jianying_word impl w)) = trunc (f64_value (float64_or_zero w ''end_time''))"
    and "sint (Start (bijian_word impl w)) = trunc (f64_value (float64_or_zero w ''start_time''))"
    and "sint (End (bijian_word impl w)) = trunc (f64_value (float64_or_zero w ''end_time''))"
proof -
  from assms(1) obtain a b where ab: "float64_or_zero w ''start_time'' = Fin a"
    "float64_or_zero w ''end_time'' = Fin b" "0 \<le> a" "a \<le> b"
    by (rule well_timedE)
  have fb: "fits_int64 (Fin b)" using assms(2) ab(2) by simp
  have "0 \<le> trunc a" using ab(3) by (rule trunc_nonneg)
  moreover have "trunc a \<le> trunc b" using ab(4) by (rule trunc_mono)
  ultimately have fa: "fits_int64 (Fin a)" using fb by (simp add: fits_int64_def)
  show "sint (Start (jianying_word impl w)) = trunc (f64_value (float64_or_zero w ''start_time''))"
    unfolding jianying_word_times ab(1) using fa by (rule sint_int64_of_float64_value)
  show "sint (End (jianying_word impl w)) = trunc (f64_value (float64_or_zero w ''end_time''))"
    unfolding jianying_word_times ab(2) using fb by (rule sint_int64_of_float64_value)
  show "sint (Start (bijian_word impl w)) = trunc (f64_value (float64_or_zero w ''start_time''))"
    unfolding bijian_word_times ab(1) using fa by (rule sint_int64_of_float64_value)
  show "sint (End (bijian_word impl w)) = trunc (f64_value (float64_or_zero w ''end_time''))"
    unfolding bijian_word_times ab(2) using fb by (rule sint_int64_of_float64_value)
qed

lemma list_all2_map_same:
  "list_all2 P xs (map f xs) \<longleftrightarrow> (\<forall>x \<in> set xs. P x (f x))"
  by (induction xs) simp_all

lemma elevenlabs_parse_succeeds_iff:
  "(\<exists>res. elevenlabs_parse impl r = Inr res)
     \<longleftrightarrow> get_string r ''text'' \<noteq> None \<and> elevenlabs_raw_words r \<noteq> []"
  by (auto simp: elevenlabs_parse_def elevenlabs_raw_words_def elevenlabs_words_eq Let_def
           split: option.splits)

lemma jianying_parse_succeeds_iff:
  "(\<exists>res. jianying_parse impl r = Inr res) \<longleftrightarrow> jianying_raw_words r \<noteq> []"
  by (auto simp: jianying_parse_def jianying_raw_words_def jianying_utterances_Words Let_def
           split: option.splits)

lemma bijian_parse_succeeds_iff:
  "(\<exists>res. bijian_parse impl r = Inr res) \<longleftrightarrow> bijian_raw_words r \<noteq> []"
  by (auto simp: bijian_parse_def bijian_raw_words_def bijian_utterances_Words Let_def
           split: option.splits)

lemma elevenlabs_example_parse:
  "elevenlabs_parse impl elevenlabs_example =
     Inr \<lparr>Text = ''hi there'',
          Words = [\<lparr>Word.Text = ''hi'', Start = 0, End = 400, SpeakerID = ''A''\<rparr>,
                   \<lparr>Word.Text = ''there'', Start = 400, End = 900, SpeakerID = []\<rparr>],
          Sentences = [], Language = ''en''\<rparr>"
  by code_simp

lemma elevenlabs_example_well_timed:
  "\<forall>w \<in> set (elevenlabs_raw_words elevenlabs_example).
      well_timed (float64_or_zero w ''start'') (float64_or_zero w ''end'') \<and>
      fits_int64 (f64_mul (float64_or_zero w ''end'') (Fin 1000))"
  by code_simp


section \<open>Facts about the poll loop\<close>

lemma bijian_queryResult_history:
  "bijian_queryResult env taskID opts h = (Inr resp, h') \<Longrightarrow>
     h' = h @ [Request (bijian_queryRequest taskID opts)]"
  by (auto simp: bijian_queryResult_def Let_def split: option.splits sum.splits if_splits)

lemma bijian_queryResult_at_most_one:
  "snd (bijian_queryResult env taskID opts h) = h \<or>
   snd (bijian_queryResult env taskID opts h) = h @ [Request (bijian_queryRequest taskID opts)]"
  by (auto simp: bijian_queryResult_def Let_def split: option.splits sum.splits if_splits)

lemma bijian_attempts_0 [simp]: "bijian_attempts taskID opts 0 = []"
  by (simp add: bijian_attempts_def)

lemma bijian_attempts_Suc:
  "bijian_attempts taskID opts (Suc k) =
     Request (bijian_queryRequest taskID opts) # Sleep 1 # bijian_attempts taskID opts k"
  by (simp add: bijian_attempts_def)

lemma bijian_attempts_requests:
  "length (filter is_Request (bijian_attempts taskID opts k)) = k"
  by (induction k) (simp_all add: bijian_attempts_Suc)

lemma bijian_attempts_sleeps:
  "filter is_Sleep (bijian_attempts taskID opts k) = replicate k (Sleep 1)"
  by (induction k) (simp_all add: bijian_attempts_Suc)

lemma bijian_poll_cancelled:
  "i < 500 \<Longrightarrow> ctx_Err env h = Some err \<Longrightarrow>
     bijian_pollResult_from env taskID opts i h = (Inl err, h)"
  by (subst bijian_pollResult_from.simps) simp

lemma bijian_poll_exhausted:
  "500 \<le> i \<Longrightarrow>
     bijian_pollResult_from env taskID opts i h =
       (Inl (Errorf ''polling timeout after 500 attempts'' None), h)"
  by (subst bijian_pollResult_from.simps) simp

lemma bijian_poll_pending_step:
  assumes "i < 500" and "ctx_Err env h = None"
    and "fst (bijian_queryResult env taskID opts h) = Inr resp" and "bijian_pending resp"
  shows "bijian_pollResult_from env taskID opts i h =
           bijian_pollResult_from env taskID opts (Suc i)
             (h @ bijian_attempts taskID opts 1)"
proof -
  obtain h' where q: "bijian_queryResult env taskID opts h = (Inr resp, h')"
    using assms(3) by (cases "bijian_queryResult env taskID opts h") simp
  have h': "h' = h @ [Request (bijian_queryRequest taskID opts)]"
    using q by (rule bijian_queryResult_history)
  obtain data state where d: "get_object resp ''data'' = Some data"
    and s: "get_float64 data ''state'' = Some state" and n: "\<not> f64_eq state (Fin 4)"
    using assms(4) by (auto simp: bijian_pending_def split: option.splits)
  show ?thesis
    by (subst bijian_pollResult_from.simps)
       (simp add: assms(1,2) q d s n h' bijian_attempts_Suc)
qed

lemma bijian_poll_pending_prefix:
  assumes "i + k \<le> 500"
    and "\<forall>j<k. ctx_Err env (h @ bijian_attempts taskID opts j) = None \<and>
            (\<exists>resp. fst (bijian_queryResult env taskID opts (h @ bijian_attempts taskID opts j))
                      = Inr resp \<and> bijian_pending resp)"
  shows "bijian_pollResult_from env taskID opts i h =
           bijian_pollResult_from env taskID opts (i + k) (h @ bijian_attempts taskID opts k)"
  using assms
proof (induction k arbitrary: i h)
  case 0
  then show ?case by simp
next
  case (Suc k)
  let ?h1 = "h @ bijian_attempts taskID opts 1"
  have shift: "?h1 @ bijian_attempts taskID opts j = h @ bijian_attempts taskID opts (Suc j)" for j
    by (simp add: bijian_attempts_Suc)
  from Suc.prems(2) have first: "ctx_Err env h = None"
    "\<exists>resp. fst (bijian_queryResult env taskID opts h) = Inr resp \<and> bijian_pending resp"
    by (auto dest: spec [of _ 0])
  then obtain resp where r: "fst (bijian_queryResult env taskID opts h) = Inr resp"
    "bijian_pending resp" by blast
  have i: "i < 500" using Suc.prems(1) by simp
  have step: "bijian_pollResult_from env taskID opts i h =
                bijian_pollResult_from env taskID opts (Suc i) ?h1"
    using i first(1) r by (rule bijian_poll_pending_step)
  have rest: "\<forall>j<k. ctx_Err env (?h1 @ bijian_attempts taskID opts j) = None \<and>
            (\<exists>resp. fst (bijian_queryResult env taskID opts (?h1 @ bijian_attempts taskID opts j))
                      = Inr resp \<and> bijian_pending resp)"
    unfolding shift using Suc.prems(2) by auto
  note step
  also have "bijian_pollResult_from env taskID opts (Suc i) ?h1 =
          bijian_pollResult_from env taskID opts (Suc i + k) (?h1 @ bijian_attempts taskID opts k)"
    using Suc.prems(1) rest by (intro Suc.IH) simp_all
  also have "\<dots> = bijian_pollResult_from env taskID opts (i + Suc k)
                       (h @ bijian_attempts taskID opts (Suc k))"
    unfolding shift by simp
  finally show ?case .
qed


section \<open>Normalisation: the claims C1, C2, C3 and C8\<close>

text \<open>
  C1 (as stated: every word of a successful \<open>Parse\<close> has \<open>0 \<le> Start \<le> End\<close>).  The
  normalisers convert the raw times and check nothing: a response whose first word ends
  before it starts and whose second word starts at a negative time is accepted, and both
  words break the invariant.
\<close>

theorem words_unordered_counterexample:
  "elevenlabs_parse amd64_conv
     [(''text'', JStr ''hi there''),
      (''words'', JArr
         [JObj [(''text'', JStr ''hi''), (''start'', JNum (Fin 2)), (''end'', JNum (Fin 1))],
          JObj [(''text'', JStr ''there''), (''start'', JNum (Fin (- 1))), (''end'', JNum (Fin 3))]])]
     = Inr \<lparr>Text = ''hi there'',
            Words = [\<lparr>Word.Text = ''hi'', Start = 2000, End = 1000, SpeakerID = []\<rparr>,
                     \<lparr>Word.Text = ''there'', Start = - 1000, End = 3000, SpeakerID = []\<rparr>],
            Sentences = [], Language = []\<rparr>
   \<and> \<not> Word_ordered \<lparr>Word.Text = ''hi'', Start = 2000, End = 1000, SpeakerID = []\<rparr>
   \<and> \<not> Word_ordered \<lparr>Word.Text = ''there'', Start = - 1000, End = 3000, SpeakerID = []\<rparr>"
  by code_simp

text \<open>
  C1 (amended).  The normalisers check neither the order nor the sign of the raw times:
  \<open>parse\<close> succeeds exactly when the container fields are there and the response has at
  least one word entry, whatever the times are.  The words of a successful \<open>parse\<close> keep
  the order and the sign of the raw times.  When every raw word entry has finite times
  with \<open>0 \<le> start \<le> end\<close> (a missing or non-numeric time counting as 0) and its end
  time, in milliseconds, fits an \<open>int64\<close>, then every word of the result has
  \<open>0 \<le> Start \<le> End\<close>, and word by word \<open>Start\<close> and \<open>End\<close> are the raw times in whole
  milliseconds: for ElevenLabs the \<open>float64\<close> product of the raw seconds and 1000,
  truncated; for JianYing and Bijian the raw milliseconds, truncated.
\<close>

theorem parse_words_ordered:
  "(elevenlabs_parse impl r1 = Inr res1 \<and>
      (\<forall>w \<in> set (elevenlabs_raw_words r1).
          well_timed (float64_or_zero w ''start'') (float64_or_zero w ''end'') \<and>
          fits_int64 (f64_mul (float64_or_zero w ''end'') (Fin 1000)))
      \<longrightarrow> (\<forall>x \<in> set (Words res1). Word_ordered x) \<and>
          list_all2
            (\<lambda>w x. sint (Start x)
                      = trunc (f64_value (f64_mul (float64_or_zero w ''start'') (Fin 1000))) \<and>
                   sint (End x)
                      = trunc (f64_value (f64_mul (float64_or_zero w ''end'') (Fin 1000))))
            (elevenlabs_raw_words r1) (Words res1)) \<and>
   (jianying_parse impl r2 = Inr res2 \<and>
      (\<forall>w \<in> set (jianying_raw_words r2).
          well_timed (float64_or_zero w ''start_time'') (float64_or_zero w ''end_time'') \<and>
          fits_int64 (float64_or_zero w ''end_time''))
      \<longrightarrow> (\<forall>x \<in> set (Words res2). Word_ordered x) \<and>
          list_all2
            (\<lambda>w x. sint (Start x) = trunc (f64_value (float64_or_zero w ''start_time'')) \<and>
                   sint (End x) = trunc (f64_value (float64_or_zero w ''end_time'')))
            (jianying_raw_words r2) (Words res2)) \<and>
   (bijian_parse impl r3 = Inr res3 \<and>
      (\<forall>w \<in> set (bijian_raw_words r3).
          well_timed (float64_or_zero w ''start_time'') (float64_or_zero w ''end_time'') \<and>
          fits_int64 (float64_or_zero w ''end_time''))
      \<longrightarrow> (\<forall>x \<in> set (Words res3). Word_ordered x) \<and>
          list_all2
            (\<lambda>w x. sint (Start x) = trunc (f64_value (float64_or_zero w ''start_time'')) \<and>
                   sint (End x) = trunc (f64_value (float64_or_zero w ''end_time'')))
            (bijian_raw_words r3) (Words res3)) \<and>
   ((\<exists>res. elevenlabs_parse impl r4 = Inr res)
      \<longleftrightarrow> get_string r4 ''text'' \<noteq> None \<and> elevenlabs_raw_words r4 \<noteq> []) \<and>
   ((\<exists>res. jianying_parse impl r5 = Inr res) \<longleftrightarrow> jianying_raw_words r5 \<noteq> []) \<and>
   ((\<exists>res. bijian_parse impl r6 = Inr res) \<longleftrightarrow> bijian_raw_words r6 \<noteq> [])"
proof (intro conjI impI; (elim conjE)?)
  assume p: "elevenlabs_parse impl r1 = Inr res1"
    and ok: "\<forall>w \<in> set (elevenlabs_raw_words r1).
          well_timed (float64_or_zero w ''start'') (float64_or_zero w ''end'') \<and>
          fits_int64 (f64_mul (float64_or_zero w ''end'') (Fin 1000))"
  have ws: "Words res1 = map (elevenlabs_word impl) (elevenlabs_raw_words r1)"
    using p by (rule elevenlabs_parse_Words)
  show "\<forall>x \<in> set (Words res1). Word_ordered x"
    unfolding ws using ok by (auto intro: elevenlabs_word_ordered)
  show "list_all2
            (\<lambda>w x. sint (Start x)
                      = trunc (f64_value (f64_mul (float64_or_zero w ''start'') (Fin 1000))) \<and>
                   sint (End x)
                      = trunc (f64_value (f64_mul (float64_or_zero w ''end'') (Fin 1000))))
            (elevenlabs_raw_words r1) (Words res1)"
    unfolding ws list_all2_map_same using ok by (auto intro: elevenlabs_word_ms)
next
  assume p: "jianying_parse impl r2 = Inr res2"
    and ok: "\<forall>w \<in> set (jianying_raw_words r2).
          well_timed (float64_or_zero w ''start_time'') (float64_or_zero w ''end_time'') \<and>
          fits_int64 (float64_or_zero w ''end_time'')"
  have ws: "Words res2 = map (jianying_word impl) (jianying_raw_words r2)"
    using p by (rule jianying_parse_Words)
  show "\<forall>x \<in> set (Words res2). Word_ordered x"
    unfolding ws using ok by (auto intro: direct_word_ordered)
  show "list_all2
            (\<lambda>w x. sint (Start x) = trunc (f64_value (float64_or_zero w ''start_time'')) \<and>
                   sint (End x) = trunc (f64_value (float64_or_zero w ''end_time'')))
            (jianying_raw_words r2) (Words res2)"
    unfolding ws list_all2_map_same using ok by (auto intro: direct_word_ms)
next
  assume p: "bijian_parse impl r3 = Inr res3"
    and ok: "\<forall>w \<in> set (bijian_raw_words r3).
          well_timed (float64_or_zero w ''start_time'') (float64_or_zero w ''end_time'') \<and>
          fits_int64 (float64_or_zero w ''end_time'')"
  have ws: "Words res3 = map (bijian_word impl) (bijian_raw_words r3)"
    using p by (rule bijian_parse_Words)
  show "\<forall>x \<in> set (Words res3). Word_ordered x"
    unfolding ws using ok by (auto intro: direct_word_ordered)
  show "list_all2
            (\<lambda>w x. sint (Start x) = trunc (f64_value (float64_or_zero w ''start_time'')) \<and>
                   sint (End x) = trunc (f64_value (float64_or_zero w ''end_time'')))
            (bijian_raw_words r3) (Words res3)"
    unfolding ws list_all2_map_same using ok by (auto intro: direct_word_ms)
next
  show "(\<exists>res. elevenlabs_parse impl r4 = Inr res)
      \<longleftrightarrow> get_string r4 ''text'' \<noteq> None \<and> elevenlabs_raw_words r4 \<noteq> []"
    by (rule elevenlabs_parse_succeeds_iff)
next
  show "(\<exists>res. jianying_parse impl r5 = Inr res) \<longleftrightarrow> jianying_raw_words r5 \<noteq> []"
    by (rule jianying_parse_succeeds_iff)
next
  show "(\<exists>res. bijian_parse impl r6 = Inr res) \<longleftrightarrow> bijian_raw_words r6 \<noteq> []"
    by (rule bijian_parse_succeeds_iff)
qed

theorem parse_words_ordered_witness:
  "elevenlabs_parse amd64_conv elevenlabs_example =
     Inr \<lparr>Text = ''hi there'',
          Words = [\<lparr>Word.Text = ''hi'', Start = 0, End = 400, SpeakerID = ''A''\<rparr>,
                   \<lparr>Word.Text = ''there'', Start = 400, End = 900, SpeakerID = []\<rparr>],
          Sentences = [], Language = ''en''\<rparr>
   \<and> Word_ordered \<lparr>Word.Text = ''hi'', Start = 0, End = 400, SpeakerID = ''A''\<rparr>
   \<and> Word_ordered \<lparr>Word.Text = ''there'', Start = 400, End = 900, SpeakerID = []\<rparr>
   \<and> jianying_parse amd64_conv
        [(''data'', JObj [(''utterances'', JArr
           [JObj [(''text'', JStr ''hi''), (''start_time'', JNum (Fin 100)),
                  (''end_time'', JNum (Fin 400)),
                  (''words'', JArr [JObj [(''text'', JStr ''hi''), (''start_time'', JNum (Fin 100)),
                                          (''end_time'', JNum (Fin 400))]])]])])]
       = Inr \<lparr>Text = ''hi'',
              Words = [\<lparr>Word.Text = ''hi'', Start = 100, End = 400, SpeakerID = []\<rparr>],
              Sentences = [\<lparr>Sentence.Text = ''hi'', Start = 100, End = 400, SpeakerID = []\<rparr>],
              Language = []\<rparr>
   \<and> bijian_parse amd64_conv
        [(''utterances'', JArr
           [JObj [(''transcript'', JStr ''hi''), (''start_time'', JNum (Fin 100)),
                  (''end_time'', JNum (Fin 400)),
                  (''words'', JArr [JObj [(''label'', JStr ''hi''), (''start_time'', JNum (Fin 100)),
                                          (''end_time'', JNum (Fin 400))]])]])]
       = Inr \<lparr>Text = ''hi'',
              Words = [\<lparr>Word.Text = ''hi'', Start = 100, End = 400, SpeakerID = []\<rparr>],
              Sentences = [\<lparr>Sentence.Text = ''hi'', Start = 100, End = 400, SpeakerID = []\<rparr>],
              Language = []\<rparr>
   \<and> Word_ordered \<lparr>Word.Text = ''hi'', Start = 100, End = 400, SpeakerID = []\<rparr>
   \<and> get_string elevenlabs_example ''text'' \<noteq> None
   \<and> elevenlabs_raw_words elevenlabs_example \<noteq> []
   \<and> jianying_raw_words
        [(''data'', JObj [(''utterances'', JArr
           [JObj [(''text'', JStr ''hi''), (''start_time'', JNum (Fin 100)),
                  (''end_time'', JNum (Fin 400)),
                  (''words'', JArr [JObj [(''text'', JStr ''hi''), (''start_time'', JNum (Fin 100)),
                                          (''end_time'', JNum (Fin 400))]])]])])] \<noteq> []
   \<and> bijian_raw_words
        [(''utterances'', JArr
           [JObj [(''transcript'', JStr ''hi''), (''start_time'', JNum (Fin 100)),
                  (''end_time'', JNum (Fin 400)),
                  (''words'', JArr [JObj [(''label'', JStr ''hi''), (''start_time'', JNum (Fin 100)),
                                          (''end_time'', JNum (Fin 400))]])]])] \<noteq> []"
proof -
  let ?r2 = "[(''data'', JObj [(''utterances'', JArr
           [JObj [(''text'', JStr ''hi''), (''start_time'', JNum (Fin 100)),
                  (''end_time'', JNum (Fin 400)),
                  (''words'', JArr [JObj [(''text'', JStr ''hi''), (''start_time'', JNum (Fin 100)),
                                          (''end_time'', JNum (Fin 400))]])]])])]"
  let ?r3 = "[(''utterances'', JArr
           [JObj [(''transcript'', JStr ''hi''), (''start_time'', JNum (Fin 100)),
                  (''end_time'', JNum (Fin 400)),
                  (''words'', JArr [JObj [(''label'', JStr ''hi''), (''start_time'', JNum (Fin 100)),
                                          (''end_time'', JNum (Fin 400))]])]])]"
  let ?res1 = "\<lparr>Text = ''hi there'',
          Words = [\<lparr>Word.Text = ''hi'', Start = 0, End = 400, SpeakerID = ''A''\<rparr>,
                   \<lparr>Word.Text = ''there'', Start = 400, End = 900, SpeakerID = []\<rparr>],
          Sentences = [], Language = ''en''\<rparr>"
  let ?res2 = "\<lparr>Text = ''hi'',
              Words = [\<lparr>Word.Text = ''hi'', Start = 100, End = 400, SpeakerID = []\<rparr>],
              Sentences = [\<lparr>Sentence.Text = ''hi'', Start = 100, End = 400, SpeakerID = []\<rparr>],
              Language = []\<rparr>"
  have p1: "elevenlabs_parse amd64_conv elevenlabs_example = Inr ?res1"
    by (rule elevenlabs_example_parse)
  have p2: "jianying_parse amd64_conv ?r2 = Inr ?res2" by code_simp
  have p3: "bijian_parse amd64_conv ?r3 = Inr ?res2" by code_simp
  have h2: "\<forall>w \<in> set (jianying_raw_words ?r2).
          well_timed (float64_or_zero w ''start_time'') (float64_or_zero w ''end_time'') \<and>
          fits_int64 (float64_or_zero w ''end_time'')"
    by code_simp
  have h3: "\<forall>w \<in> set (bijian_raw_words ?r3).
          well_timed (float64_or_zero w ''start_time'') (float64_or_zero w ''end_time'') \<and>
          fits_int64 (float64_or_zero w ''end_time'')"
    by code_simp
  have n: "get_string elevenlabs_example ''text'' \<noteq> None"
    "elevenlabs_raw_words elevenlabs_example \<noteq> []"
    "jianying_raw_words ?r2 \<noteq> []" "bijian_raw_words ?r3 \<noteq> []"
    by code_simp+
  show ?thesis
    using p1 p2 p3 elevenlabs_example_well_timed h2 h3 n
      parse_words_ordered
        [where impl = amd64_conv and ?r1.0 = elevenlabs_example and ?res1.0 = ?res1
           and ?r2.0 = ?r2 and ?res2.0 = ?res2 and ?r3.0 = ?r3 and ?res3.0 = ?res2
           and ?r4.0 = elevenlabs_example and ?r5.0 = ?r2 and ?r6.0 = ?r3]
    by simp
qed

text \<open>
  C2 (as stated: for every word entry with a numeric start, \<open>Start\<close> is \<open>start * 1000\<close>
  truncated towards zero).  An \<open>int64\<close> cannot hold every such value: for the start time
  \<open>1e16\<close> seconds the product is \<open>10\<^sup>1\<^sup>9\<close>, beyond the largest \<open>int64\<close>, and \<open>Start\<close> is
  what the platform's conversion yields, on amd64 the least \<open>int64\<close>.
\<close>

theorem elevenlabs_start_out_of_range_counterexample:
  "get_float64 [(''text'', JStr ''hi''), (''start'', json_number (10 ^ 16))] ''start''
     = Some (Fin (10 ^ 16))
   \<and> f64_mul (Fin (10 ^ 16)) (Fin 1000) = Fin (10 ^ 19)
   \<and> trunc (10 ^ 16 * 1000) = 10000000000000000000
   \<and> sint (Start (elevenlabs_word amd64_conv
                     [(''text'', JStr ''hi''), (''start'', json_number (10 ^ 16))]))
       = - 9223372036854775808"
  by code_simp

text \<open>
  C2 (amended).  The ElevenLabs normaliser multiplies the raw seconds by 1000 in
  \<open>float64\<close> and truncates the product: for every word entry whose start (or end) is a
  finite number \<open>a\<close>, when the \<open>float64\<close> product \<open>p\<close> of \<open>a\<close> and 1000 (the exact
  product rounded to the nearest \<open>float64\<close>) is finite and its truncation fits an
  \<open>int64\<close>, \<open>Start\<close> (or \<open>End\<close>) is \<open>p\<close> truncated towards zero.  In particular 1.5
  seconds give 1500 milliseconds, and the example response of the specification
  normalises to the stated result.
\<close>

theorem elevenlabs_milliseconds:
  "(get_float64 w ''start'' = Some (Fin a) \<and> f64_round (a * 1000) = Fin p \<and>
      - (2 ^ 63) \<le> trunc p \<and> trunc p < 2 ^ 63
      \<longrightarrow> sint (Start (elevenlabs_word impl w)) = trunc p) \<and>
   (get_float64 w ''end'' = Some (Fin b) \<and> f64_round (b * 1000) = Fin q \<and>
      - (2 ^ 63) \<le> trunc q \<and> trunc q < 2 ^ 63
      \<longrightarrow> sint (End (elevenlabs_word impl w)) = trunc q) \<and>
   json_number (3 / 2) = JNum (Fin (3 / 2)) \<and>
   f64_mul (Fin (3 / 2)) (Fin 1000) = Fin 1500 \<and>
   Start (elevenlabs_word impl [(''text'', JStr ''hi''), (''start'', json_number (3 / 2))]) = 1500 \<and>
   elevenlabs_parse impl elevenlabs_example =
     Inr \<lparr>Text = ''hi there'',
          Words = [\<lparr>Word.Text = ''hi'', Start = 0, End = 400, SpeakerID = ''A''\<rparr>,
                   \<lparr>Word.Text = ''there'', Start = 400, End = 900, SpeakerID = []\<rparr>],
          Sentences = [], Language = ''en''\<rparr>"
proof (intro conjI impI; (elim conjE)?)
  assume "get_float64 w ''start'' = Some (Fin a)" and "f64_round (a * 1000) = Fin p"
    and "- (2 ^ 63) \<le> trunc p" and "trunc p < 2 ^ 63"
  then show "sint (Start (elevenlabs_word impl w)) = trunc p"
    by (simp add: elevenlabs_word_times float64_or_zero_def sint_int64_of_float64 fits_int64_def)
next
  assume "get_float64 w ''end'' = Some (Fin b)" and "f64_round (b * 1000) = Fin q"
    and "- (2 ^ 63) \<le> trunc q" and "trunc q < 2 ^ 63"
  then show "sint (End (elevenlabs_word impl w)) = trunc q"
    by (simp add: elevenlabs_word_times float64_or_zero_def sint_int64_of_float64 fits_int64_def)
next
  show "json_number (3 / 2) = JNum (Fin (3 / 2))" by code_simp
next
  show "f64_mul (Fin (3 / 2)) (Fin 1000) = Fin 1500" by code_simp
next
  show "Start (elevenlabs_word impl [(''text'', JStr ''hi''), (''start'', json_number (3 / 2))])
          = 1500"
    by code_simp
next
  show "elevenlabs_parse impl elevenlabs_example =
     Inr \<lparr>Text = ''hi there'',
          Words = [\<lparr>Word.Text = ''hi'', Start = 0, End = 400, SpeakerID = ''A''\<rparr>,
                   \<lparr>Word.Text = ''there'', Start = 400, End = 900, SpeakerID = []\<rparr>],
          Sentences = [], Language = ''en''\<rparr>"
    by (rule elevenlabs_example_parse)
qed

theorem elevenlabs_milliseconds_witness:
  "get_float64 [(''text'', JStr ''there''), (''start'', json_number (4 / 10)),
                (''end'', json_number (9 / 10))] ''start''
     = Some (Fin (3602879701896397 / 9007199254740992))
   \<and> f64_round (3602879701896397 / 9007199254740992 * 1000) = Fin 400
   \<and> sint (Start (elevenlabs_word amd64_conv
                     [(''text'', JStr ''there''), (''start'', json_number (4 / 10)),
                      (''end'', json_number (9 / 10))])) = 400
   \<and> get_float64 [(''text'', JStr ''there''), (''start'', json_number (4 / 10)),
                  (''end'', json_number (9 / 10))] ''end''
     = Some (Fin (8106479329266893 / 9007199254740992))
   \<and> f64_round (8106479329266893 / 9007199254740992 * 1000) = Fin 900
   \<and> sint (End (elevenlabs_word amd64_conv
                   [(''text'', JStr ''there''), (''start'', json_number (4 / 10)),
                    (''end'', json_number (9 / 10))])) = 900"
proof -
  let ?w = "[(''text'', JStr ''there''), (''start'', json_number (4 / 10)),
             (''end'', json_number (9 / 10))]"
  have s: "get_float64 ?w ''start'' = Some (Fin (3602879701896397 / 9007199254740992))"
    by code_simp
  have e: "get_float64 ?w ''end'' = Some (Fin (8106479329266893 / 9007199254740992))"
    by code_simp
  have ps: "f64_round (3602879701896397 / 9007199254740992 * 1000) = Fin 400" by code_simp
  have pe: "f64_round (8106479329266893 / 9007199254740992 * 1000) = Fin 900" by code_simp
  have t: "trunc 400 = 400" "trunc 900 = 900" by (simp_all add: trunc_def)
  show ?thesis
    using s e ps pe t
      elevenlabs_milliseconds
        [where w = ?w and impl = amd64_conv
           and a = "3602879701896397 / 9007199254740992" and p = 400
           and b = "8106479329266893 / 9007199254740992" and q = 900]
    by simp
qed

text \<open>
  Two remarks on C2.  No conversion of the platform can make the out-of-range start time
  come out right, since no \<open>int64\<close> is \<open>10\<^sup>1\<^sup>9\<close>.  And the product is a \<open>float64\<close> product:
  the JSON number 1.001 decodes to a \<open>float64\<close> just below 1.001, its product with 1000
  is just below 1001, and the word starts at 1000 milliseconds.
\<close>

lemma elevenlabs_start_out_of_range_any_impl:
  "sint (Start (elevenlabs_word impl [(''text'', JStr ''hi''), (''start'', json_number (10 ^ 16))]))
     \<noteq> trunc (10 ^ 16 * 1000)"
proof -
  have "sint (Start (elevenlabs_word impl
           [(''text'', JStr ''hi''), (''start'', json_number (10 ^ 16))])) < 2 ^ 63"
    using sint_lt [where 'a = 64] by simp
  moreover have "trunc (10 ^ 16 * 1000) = 10000000000000000000"
    by (simp add: trunc_def)
  ultimately show ?thesis by simp
qed

lemma elevenlabs_float_product_remark:
  "Start (elevenlabs_word impl [(''text'', JStr ''hi''), (''start'', json_number (1001 / 1000))])
     = 1000"
  by code_simp

text \<open>
  C3.  For each of the three providers, a successful \<open>Parse\<close> never returns an empty
  \<open>Words\<close> sequence, and a raw response that has no word entry makes \<open>Parse\<close> fail with a
  \<open>ParseError\<close>, whatever its text and its sentences are.
\<close>

theorem parse_no_empty_words:
  "(elevenlabs_Parse impl raw1 = Inr res1 \<longrightarrow> Words res1 \<noteq> []) \<and>
   (jianying_Parse impl raw2 = Inr res2 \<longrightarrow> Words res2 \<noteq> []) \<and>
   (bijian_Parse impl raw3 = Inr res3 \<longrightarrow> Words res3 \<noteq> []) \<and>
   (elevenlabs_raw_words r1 = [] \<longrightarrow>
      (\<exists>msg. elevenlabs_Parse impl (JObj r1) = Inl (ParseError msg None))) \<and>
   (jianying_raw_words r2 = [] \<longrightarrow>
      (\<exists>msg. jianying_Parse impl (JObj r2) = Inl (ParseError msg None))) \<and>
   (bijian_raw_words r3 = [] \<longrightarrow>
      (\<exists>msg. bijian_Parse impl (JObj r3) = Inl (ParseError msg None)))"
proof (intro conjI impI)
  assume "elevenlabs_Parse impl raw1 = Inr res1"
  then show "Words res1 \<noteq> []"
    using elevenlabs_Parse_outcomes [of impl raw1] by auto
next
  assume "jianying_Parse impl raw2 = Inr res2"
  then show "Words res2 \<noteq> []"
    using jianying_Parse_outcomes [of impl raw2] by auto
next
  assume "bijian_Parse impl raw3 = Inr res3"
  then show "Words res3 \<noteq> []"
    using bijian_Parse_outcomes [of impl raw3] by auto
next
  assume empty: "elevenlabs_raw_words r1 = []"
  have "\<not> (\<exists>res. elevenlabs_Parse impl (JObj r1) = Inr res)"
    using elevenlabs_parse_Words [of impl r1] elevenlabs_Parse_outcomes [of impl "JObj r1"] empty
    by (auto simp: elevenlabs_Parse_def)
  then show "\<exists>msg. elevenlabs_Parse impl (JObj r1) = Inl (ParseError msg None)"
    using elevenlabs_Parse_outcomes [of impl "JObj r1"] by auto
next
  assume empty: "jianying_raw_words r2 = []"
  have "\<not> (\<exists>res. jianying_Parse impl (JObj r2) = Inr res)"
    using jianying_parse_Words [of impl r2] jianying_Parse_outcomes [of impl "JObj r2"] empty
    by (auto simp: jianying_Parse_def)
  then show "\<exists>msg. jianying_Parse impl (JObj r2) = Inl (ParseError msg None)"
    using jianying_Parse_outcomes [of impl "JObj r2"] by auto
next
  assume empty: "bijian_raw_words r3 = []"
  have "\<not> (\<exists>res. bijian_Parse impl (JObj r3) = Inr res)"
    using bijian_parse_Words [of impl r3] bijian_Parse_outcomes [of impl "JObj r3"] empty
    by (auto simp: bijian_Parse_def)
  then show "\<exists>msg. bijian_Parse impl (JObj r3) = Inl (ParseError msg None)"
    using bijian_Parse_outcomes [of impl "JObj r3"] by auto
qed

theorem parse_no_empty_words_witness:
  "elevenlabs_Parse amd64_conv
     (JObj [(''text'', JStr ''hi''), (''words'', JArr [JObj [(''text'', JStr ''hi'')]])])
     = Inr \<lparr>Text = ''hi'',
            Words = [\<lparr>Word.Text = ''hi'', Start = 0, End = 0, SpeakerID = []\<rparr>],
            Sentences = [], Language = []\<rparr> \<and>
   Words \<lparr>Text = ''hi'',
          Words = [\<lparr>Word.Text = ''hi'', Start = 0, End = 0, SpeakerID = []\<rparr>],
          Sentences = [], Language = []\<rparr> \<noteq> [] \<and>
   jianying_Parse amd64_conv
     (JObj [(''data'', JObj [(''utterances'', JArr
        [JObj [(''text'', JStr ''hi''), (''words'', JArr [JObj [(''text'', JStr ''hi'')]])]])])])
     = Inr \<lparr>Text = ''hi'',
            Words = [\<lparr>Word.Text = ''hi'', Start = 0, End = 0, SpeakerID = []\<rparr>],
            Sentences = [\<lparr>Sentence.Text = ''hi'', Start = 0, End = 0, SpeakerID = []\<rparr>],
            Language = []\<rparr> \<and>
   bijian_Parse amd64_conv
     (JObj [(''utterances'', JArr
        [JObj [(''transcript'', JStr ''hi''), (''words'', JArr [JObj [(''label'', JStr ''hi'')]])]])])
     = Inr \<lparr>Text = ''hi'',
            Words = [\<lparr>Word.Text = ''hi'', Start = 0, End = 0, SpeakerID = []\<rparr>],
            Sentences = [\<lparr>Sentence.Text = ''hi'', Start = 0, End = 0, SpeakerID = []\<rparr>],
            Language = []\<rparr> \<and>
   elevenlabs_raw_words [(''text'', JStr ''hi there''), (''words'', JArr [JStr ''hi''])] = [] \<and>
   (\<exists>msg. elevenlabs_Parse amd64_conv
            (JObj [(''text'', JStr ''hi there''), (''words'', JArr [JStr ''hi''])])
          = Inl (ParseError msg None)) \<and>
   jianying_raw_words
     [(''data'', JObj [(''utterances'', JArr [JObj [(''text'', JStr ''hi there'')]])])] = [] \<and>
   (\<exists>msg. jianying_Parse amd64_conv
            (JObj [(''data'', JObj [(''utterances'', JArr [JObj [(''text'', JStr ''hi there'')]])])])
          = Inl (ParseError msg None)) \<and>
   bijian_raw_words
     [(''utterances'', JArr [JObj [(''transcript'', JStr ''hi there''), (''words'', JArr [])]])] = [] \<and>
   (\<exists>msg. bijian_Parse amd64_conv
            (JObj [(''utterances'', JArr
               [JObj [(''transcript'', JStr ''hi there''), (''words'', JArr [])]])])
          = Inl (ParseError msg None))"
proof -
  let ?res = "\<lparr>Text = ''hi'',
            Words = [\<lparr>Word.Text = ''hi'', Start = 0, End = 0, SpeakerID = []\<rparr>],
            Sentences = [], Language = []\<rparr>"
  let ?res' = "\<lparr>Text = ''hi'',
            Words = [\<lparr>Word.Text = ''hi'', Start = 0, End = 0, SpeakerID = []\<rparr>],
            Sentences = [\<lparr>Sentence.Text = ''hi'', Start = 0, End = 0, SpeakerID = []\<rparr>],
            Language = []\<rparr>"
  have e: "elevenlabs_Parse amd64_conv
     (JObj [(''text'', JStr ''hi''), (''words'', JArr [JObj [(''text'', JStr ''hi'')]])]) = Inr ?res"
    by code_simp
  have j: "jianying_Parse amd64_conv
     (JObj [(''data'', JObj [(''utterances'', JArr
        [JObj [(''text'', JStr ''hi''), (''words'', JArr [JObj [(''text'', JStr ''hi'')]])]])])])
     = Inr ?res'"
    by code_simp
  have b: "bijian_Parse amd64_conv
     (JObj [(''utterances'', JArr
        [JObj [(''transcript'', JStr ''hi''), (''words'', JArr [JObj [(''label'', JStr ''hi'')]])]])])
     = Inr ?res'"
    by code_simp
  have e0: "elevenlabs_raw_words [(''text'', JStr ''hi there''), (''words'', JArr [JStr ''hi''])] = []"
    by code_simp
  have j0: "jianying_raw_words
     [(''data'', JObj [(''utterances'', JArr [JObj [(''text'', JStr ''hi there'')]])])] = []"
    by code_simp
  have b0: "bijian_raw_words
     [(''utterances'', JArr [JObj [(''transcript'', JStr ''hi there''), (''words'', JArr [])]])] = []"
    by code_simp
  show ?thesis
    using parse_no_empty_words
      [of amd64_conv
          "JObj [(''text'', JStr ''hi''), (''words'', JArr [JObj [(''text'', JStr ''hi'')]])]"
          ?res
          "JObj [(''data'', JObj [(''utterances'', JArr
             [JObj [(''text'', JStr ''hi''), (''words'', JArr [JObj [(''text'', JStr ''hi'')]])]])])]"
          ?res'
          "JObj [(''utterances'', JArr
             [JObj [(''transcript'', JStr ''hi''),
                    (''words'', JArr [JObj [(''label'', JStr ''hi'')]])]])]"
          ?res'
          "[(''text'', JStr ''hi there''), (''words'', JArr [JStr ''hi''])]"
          "[(''data'', JObj [(''utterances'', JArr [JObj [(''text'', JStr ''hi there'')]])])]"
          "[(''utterances'', JArr
             [JObj [(''transcript'', JStr ''hi there''), (''words'', JArr [])]])]"]
      e j b e0 j0 b0
    by blast
qed

text \<open>
  C8 (as stated: a missing or ill-shaped required field, the per-word fields included,
  makes normalisation fail with a \<open>ParseError\<close> naming the field, and no default value is
  substituted).  It does not hold for the per-word fields: a word entry without text,
  start and end is accepted and becomes a word with the empty text and both times 0.
\<close>

theorem word_fields_default_counterexample:
  "elevenlabs_parse amd64_conv [(''text'', JStr ''hi''), (''words'', JArr [JObj []])] =
     Inr \<lparr>Text = ''hi'',
          Words = [\<lparr>Word.Text = [], Start = 0, End = 0, SpeakerID = []\<rparr>],
          Sentences = [], Language = []\<rparr>"
  by code_simp

text \<open>
  C8 (amended).  A missing or ill-shaped container field makes \<open>parse\<close> fail with a
  \<open>ParseError\<close> whose message names the field: \<open>text\<close> and \<open>words\<close> for ElevenLabs, \<open>data\<close>
  and \<open>data.utterances\<close> for JianYing, \<open>utterances\<close> for Bijian.  A per-word field that is
  missing or ill-shaped is replaced by the zero value: the empty text, the time 0.
\<close>

theorem parse_missing_fields:
  "(get_string r1 ''text'' = None \<longrightarrow>
      elevenlabs_parse impl r1 = Inl (ParseError ''missing text field in response'' None)) \<and>
   (get_string r2 ''text'' = Some t \<and> get_array r2 ''words'' = None \<longrightarrow>
      elevenlabs_parse impl r2 = Inl (ParseError ''missing words field in response'' None)) \<and>
   (get_object r3 ''data'' = None \<longrightarrow>
      jianying_parse impl r3 = Inl (ParseError ''missing data field in response'' None)) \<and>
   (get_object r4 ''data'' = Some data \<and> get_array data ''utterances'' = None \<longrightarrow>
      jianying_parse impl r4 = Inl (ParseError ''missing utterances field in data'' None)) \<and>
   (get_array r5 ''utterances'' = None \<longrightarrow>
      bijian_parse impl r5 = Inl (ParseError ''missing utterances field in response'' None)) \<and>
   (get_string w ''text'' = None \<longrightarrow>
      Word.Text (elevenlabs_word impl w) = [] \<and> Word.Text (jianying_word impl w) = []) \<and>
   (get_float64 w ''start'' = None \<longrightarrow> Start (elevenlabs_word impl w) = 0) \<and>
   (get_float64 w ''end'' = None \<longrightarrow> End (elevenlabs_word impl w) = 0) \<and>
   (get_string w ''label'' = None \<longrightarrow> Word.Text (bijian_word impl w) = []) \<and>
   (get_float64 w ''start_time'' = None \<longrightarrow>
      Start (jianying_word impl w) = 0 \<and> Start (bijian_word impl w) = 0) \<and>
   (get_float64 w ''end_time'' = None \<longrightarrow>
      End (jianying_word impl w) = 0 \<and> End (bijian_word impl w) = 0)"
proof -
  have z: "int64_of_float64 impl (Fin 0) = 0"
    by (simp add: int64_of_float64_def fits_int64_def trunc_def)
  have m: "f64_mul (Fin 0) (Fin 1000) = Fin 0"
    by (simp add: f64_round_def)
  show ?thesis
    by (simp add: elevenlabs_parse_def jianying_parse_def bijian_parse_def
          elevenlabs_word_def jianying_word_def bijian_word_def
          string_or_zero_def float64_or_zero_def z m Let_def
          split: option.splits del: f64_mul.simps)
qed

theorem parse_missing_fields_witness:
  "elevenlabs_parse amd64_conv [] = Inl (ParseError ''missing text field in response'' None) \<and>
   elevenlabs_parse amd64_conv [(''text'', JStr ''hi''), (''words'', JNull)]
     = Inl (ParseError ''missing words field in response'' None) \<and>
   jianying_parse amd64_conv [(''data'', JArr [])]
     = Inl (ParseError ''missing data field in response'' None) \<and>
   jianying_parse amd64_conv [(''data'', JObj [(''utterances'', JStr ''none'')])]
     = Inl (ParseError ''missing utterances field in data'' None) \<and>
   bijian_parse amd64_conv [] = Inl (ParseError ''missing utterances field in response'' None) \<and>
   elevenlabs_word amd64_conv [(''text'', JNum (Fin 1)), (''start'', JStr ''0.5'')]
     = \<lparr>Word.Text = [], Start = 0, End = 0, SpeakerID = []\<rparr> \<and>
   jianying_word amd64_conv [(''text'', JNum (Fin 1)), (''start'', JStr ''0.5'')]
     = \<lparr>Word.Text = [], Start = 0, End = 0, SpeakerID = []\<rparr> \<and>
   bijian_word amd64_conv [(''text'', JNum (Fin 1)), (''start'', JStr ''0.5'')]
     = \<lparr>Word.Text = [], Start = 0, End = 0, SpeakerID = []\<rparr>"
proof -
  let ?w = "[(''text'', JNum (Fin 1)), (''start'', JStr ''0.5'')]"
  have h: "get_string [] ''text'' = None"
    "get_string [(''text'', JStr ''hi''), (''words'', JNull)] ''text'' = Some ''hi''
       \<and> get_array [(''text'', JStr ''hi''), (''words'', JNull)] ''words'' = None"
    "get_object [(''data'', JArr [])] ''data'' = None"
    "get_object [(''data'', JObj [(''utterances'', JStr ''none'')])] ''data''
        = Some [(''utterances'', JStr ''none'')]
       \<and> get_array [(''utterances'', JStr ''none'')] ''utterances'' = None"
    "get_array [] ''utterances'' = None"
    "get_string ?w ''text'' = None" "get_float64 ?w ''start'' = None"
    "get_float64 ?w ''end'' = None" "get_string ?w ''label'' = None"
    "get_float64 ?w ''start_time'' = None" "get_float64 ?w ''end_time'' = None"
    by (simp_all add: get_string_def get_array_def get_object_def get_float64_def)
  have s: "SpeakerID (elevenlabs_word amd64_conv ?w) = []"
    "SpeakerID (jianying_word amd64_conv ?w) = []"
    "SpeakerID (bijian_word amd64_conv ?w) = []"
    by (simp_all add: elevenlabs_word_def jianying_word_def bijian_word_def Let_def
          get_string_def get_object_def jianying_speaker_def)
  have eq: "\<And>x :: Word. x = \<lparr>Word.Text = [], Start = 0, End = 0, SpeakerID = []\<rparr> \<longleftrightarrow>
      Word.Text x = [] \<and> Start x = 0 \<and> End x = 0 \<and> SpeakerID x = []"
    by auto
  show ?thesis
    unfolding eq
    using h s
      parse_missing_fields
        [where impl = amd64_conv and ?r1.0 = "[]"
           and ?r2.0 = "[(''text'', JStr ''hi''), (''words'', JNull)]" and t = "''hi''"
           and ?r3.0 = "[(''data'', JArr [])]"
           and ?r4.0 = "[(''data'', JObj [(''utterances'', JStr ''none'')])]"
           and data = "[(''utterances'', JStr ''none'')]"
           and ?r5.0 = "[]" and w = ?w]
    by blast
qed


section \<open>Polling: the claims C4, C5, C6 and C7\<close>

text \<open>
  C4 (as stated: the task-query step of the signed backend, JianYing, polls once a second,
  at most 500 times, and fails with a timeout error when the cap is exhausted).  It does
  not: against a remote end that answers every query with a task that is not finished,
  \<open>queryTask\<close> makes one request, never sleeps, and returns that first response as its
  result.
\<close>

theorem jianying_queryTask_no_poll_counterexample:
  "jianying_queryTask (scripted_env None None) ''task-1'' ''3961234567890123'' [] =
     (Inr [(''ret'', JStr ''0''), (''raw'', JStr ''pending'')],
      [Request \<lparr>Method = ''POST'',
                URL = ''https://lv-pc-api-sinfonlinec.ulikecam.com/lv/v1/audio_subtitle/query'',
                Header = [(''Content-Type'', ''application/json''),
                          (''User-Agent'',
                           ''Cronet/TTNetVersion:d4572e53 2024-06-12 QuicVersion:4bf243e0 2023-04-17''),
                          (''appvr'', ''6.6.0''),
                          (''device-time'', ''1700000000''),
                          (''pf'', ''4''),
                          (''sign'', ''00000000000000000000000000000000''),
                          (''sign-ver'', ''1''),
                          (''tdid'', ''3961234567890123'')],
                Body = Some ''{}''\<rparr>])"
proof -
  have t: "Sprintf_d 1700000000 = ''1700000000''" by code_simp
  show ?thesis
    by (simp add: jianying_queryTask_def jianying_doRequest_def generateSign_def buildHeaders_def
          jianying_apiQuery_def scripted_env_def getStringField_def string_or_zero_def
          get_string_def t Let_def)
qed

text \<open>
  C4 (amended).  The task-query step of the signed backend makes at most one request and
  never sleeps: the history after \<open>queryTask\<close> is the history before it, or that history
  followed by a single POST request to the query endpoint, signed with the headers of
  \<open>buildHeaders\<close>.  When that request is answered with status 200 and a body that
  decodes to a map whose \<open>ret\<close> is \<open>"0"\<close>, \<open>queryTask\<close> returns that map, whatever it
  says about the task.  The poll policy (one second, 500 attempts, timeout) is that of
  the chunked-upload backend alone.
\<close>

theorem jianying_queryTask_single_request:
  "(snd (jianying_queryTask env queryID tdid h) = h \<or>
    (\<exists>body. snd (jianying_queryTask env queryID tdid h) =
        h @ [Request \<lparr>Method = ''POST'', URL = jianying_apiQuery,
                       Header = (''Content-Type'', ''application/json'') #
                         buildHeaders (fst (generateSign env ''/lv/v1/audio_subtitle/query'' tdid h))
                           (snd (generateSign env ''/lv/v1/audio_subtitle/query'' tdid h)) tdid,
                       Body = Some body\<rparr>])) \<and>
   (Marshal env (JObj [(''id'', JStr queryID),
                       (''pack_options'', JObj [(''need_attribute'', JBool True)])]) = Inr body \<and>
    NewRequest env ''POST'' jianying_apiQuery = None \<and>
    Do env h \<lparr>Method = ''POST'', URL = jianying_apiQuery,
              Header = (''Content-Type'', ''application/json'') #
                buildHeaders (fst (generateSign env ''/lv/v1/audio_subtitle/query'' tdid h))
                  (snd (generateSign env ''/lv/v1/audio_subtitle/query'' tdid h)) tdid,
              Body = Some body\<rparr> = Inr resp \<and>
    ReadErr resp = None \<and> StatusCode resp = 200 \<and> RespBody resp \<noteq> [] \<and>
    Unmarshal env (RespBody resp) = Inr result \<and> string_or_zero result ''ret'' = ''0''
    \<longrightarrow> jianying_queryTask env queryID tdid h =
          (Inr result,
           h @ [Request \<lparr>Method = ''POST'', URL = jianying_apiQuery,
                          Header = (''Content-Type'', ''application/json'') #
                            buildHeaders
                              (fst (generateSign env ''/lv/v1/audio_subtitle/query'' tdid h))
                              (snd (generateSign env ''/lv/v1/audio_subtitle/query'' tdid h)) tdid,
                          Body = Some body\<rparr>]))"
proof (intro conjI impI)
  show "snd (jianying_queryTask env queryID tdid h) = h \<or>
    (\<exists>body. snd (jianying_queryTask env queryID tdid h) =
        h @ [Request \<lparr>Method = ''POST'', URL = jianying_apiQuery,
                       Header = (''Content-Type'', ''application/json'') #
                         buildHeaders (fst (generateSign env ''/lv/v1/audio_subtitle/query'' tdid h))
                           (snd (generateSign env ''/lv/v1/audio_subtitle/query'' tdid h)) tdid,
                       Body = Some body\<rparr>])"
    by (auto simp: jianying_queryTask_def jianying_doRequest_def Let_def
             split: sum.splits option.splits prod.splits if_splits)
next
  assume "Marshal env (JObj [(''id'', JStr queryID),
                       (''pack_options'', JObj [(''need_attribute'', JBool True)])]) = Inr body \<and>
    NewRequest env ''POST'' jianying_apiQuery = None \<and>
    Do env h \<lparr>Method = ''POST'', URL = jianying_apiQuery,
              Header = (''Content-Type'', ''application/json'') #
                buildHeaders (fst (generateSign env ''/lv/v1/audio_subtitle/query'' tdid h))
                  (snd (generateSign env ''/lv/v1/audio_subtitle/query'' tdid h)) tdid,
              Body = Some body\<rparr> = Inr resp \<and>
    ReadErr resp = None \<and> StatusCode resp = 200 \<and> RespBody resp \<noteq> [] \<and>
    Unmarshal env (RespBody resp) = Inr result \<and> string_or_zero result ''ret'' = ''0''"
  then show "jianying_queryTask env queryID tdid h =
          (Inr result,
           h @ [Request \<lparr>Method = ''POST'', URL = jianying_apiQuery,
                          Header = (''Content-Type'', ''application/json'') #
                            buildHeaders
                              (fst (generateSign env ''/lv/v1/audio_subtitle/query'' tdid h))
                              (snd (generateSign env ''/lv/v1/audio_subtitle/query'' tdid h)) tdid,
                          Body = Some body\<rparr>])"
    by (simp add: jianying_queryTask_def jianying_doRequest_def getStringField_def Let_def
          case_prod_unfold)
qed

theorem jianying_queryTask_single_request_witness:
  "jianying_queryTask (scripted_env (Some 0) None) ''task-2'' ''3961234567890123''
       [Sleep 3] =
     (Inr [(''ret'', JStr ''0''), (''raw'', JStr ''done'')],
      [Sleep 3,
       Request \<lparr>Method = ''POST'', URL = jianying_apiQuery,
                Header = (''Content-Type'', ''application/json'') #
                  buildHeaders
                    (fst (generateSign (scripted_env (Some 0) None)
                            ''/lv/v1/audio_subtitle/query'' ''3961234567890123'' [Sleep 3]))
                    (snd (generateSign (scripted_env (Some 0) None)
                            ''/lv/v1/audio_subtitle/query'' ''3961234567890123'' [Sleep 3]))
                    ''3961234567890123'',
                Body = Some ''{}''\<rparr>])"
proof -
  have hyp: "Marshal (scripted_env (Some 0) None)
        (JObj [(''id'', JStr ''task-2''),
               (''pack_options'', JObj [(''need_attribute'', JBool True)])]) = Inr ''{}'' \<and>
    NewRequest (scripted_env (Some 0) None) ''POST'' jianying_apiQuery = None \<and>
    Do (scripted_env (Some 0) None) [Sleep 3]
       \<lparr>Method = ''POST'', URL = jianying_apiQuery,
        Header = (''Content-Type'', ''application/json'') #
          buildHeaders
            (fst (generateSign (scripted_env (Some 0) None)
                    ''/lv/v1/audio_subtitle/query'' ''3961234567890123'' [Sleep 3]))
            (snd (generateSign (scripted_env (Some 0) None)
                    ''/lv/v1/audio_subtitle/query'' ''3961234567890123'' [Sleep 3]))
            ''3961234567890123'',
        Body = Some ''{}''\<rparr>
      = Inr \<lparr>StatusCode = 200, RespHeader = [], RespBody = ''done'', ReadErr = None\<rparr> \<and>
    ReadErr \<lparr>StatusCode = 200, RespHeader = [], RespBody = ''done'', ReadErr = None\<rparr> = None \<and>
    StatusCode \<lparr>StatusCode = 200, RespHeader = [], RespBody = ''done'', ReadErr = None\<rparr> = 200 \<and>
    RespBody \<lparr>StatusCode = 200, RespHeader = [], RespBody = ''done'', ReadErr = None\<rparr> \<noteq> [] \<and>
    Unmarshal (scripted_env (Some 0) None)
        (RespBody \<lparr>StatusCode = 200, RespHeader = [], RespBody = ''done'', ReadErr = None\<rparr>)
      = Inr [(''ret'', JStr ''0''), (''raw'', JStr ''done'')] \<and>
    string_or_zero [(''ret'', JStr ''0''), (''raw'', JStr ''done'')] ''ret'' = ''0''"
    by (simp add: scripted_env_def string_or_zero_def get_string_def)
  show ?thesis
    using jianying_queryTask_single_request
      [where env = "scripted_env (Some 0) None" and queryID = "''task-2''"
         and tdid = "''3961234567890123''" and h = "[Sleep 3]" and body = "''{}''"
         and resp = "\<lparr>StatusCode = 200, RespHeader = [], RespBody = ''done'', ReadErr = None\<rparr>"
         and result = "[(''ret'', JStr ''0''), (''raw'', JStr ''done'')]"]
      hyp
    by simp
qed

text \<open>
  C5.  The poll loop of the chunked-upload backend (Bijian) enforces its cap.  When the
  context is never done and every one of the 500 attempts finds the task pending (a
  numeric state other than 4), \<open>pollResult\<close> fails with the error
  \<open>polling timeout after 500 attempts\<close>; what it did is exactly 500 times a status request
  followed by a sleep of one second, so no 501st request is made.
\<close>

theorem bijian_poll_timeout:
  assumes "\<forall>j<500. ctx_Err env (h @ bijian_attempts taskID opts j) = None \<and>
             (\<exists>resp. fst (bijian_queryResult env taskID opts (h @ bijian_attempts taskID opts j))
                       = Inr resp \<and> bijian_pending resp)"
  shows "bijian_pollResult env taskID opts h =
           (Inl (Errorf ''polling timeout after 500 attempts'' None),
            h @ bijian_attempts taskID opts 500)
         \<and> length (filter is_Request (bijian_attempts taskID opts 500)) = 500
         \<and> filter is_Sleep (bijian_attempts taskID opts 500) = replicate 500 (Sleep 1)"
proof -
  have "bijian_pollResult_from env taskID opts 0 h =
          bijian_pollResult_from env taskID opts (0 + 500) (h @ bijian_attempts taskID opts 500)"
    using assms by (intro bijian_poll_pending_prefix) simp_all
  also have "\<dots> = (Inl (Errorf ''polling timeout after 500 attempts'' None),
                     h @ bijian_attempts taskID opts 500)"
    by (rule bijian_poll_exhausted) simp
  finally show ?thesis
    by (simp add: bijian_pollResult_def bijian_attempts_requests bijian_attempts_sleeps)
qed

theorem bijian_poll_timeout_witness:
  "bijian_pollResult (scripted_env None None) ''task-1'' \<lparr>Cookie = []\<rparr> [] =
     (Inl (Errorf ''polling timeout after 500 attempts'' None),
      bijian_attempts ''task-1'' \<lparr>Cookie = []\<rparr> 500)
   \<and> length (filter is_Request (bijian_attempts ''task-1'' \<lparr>Cookie = []\<rparr> 500)) = 500
   \<and> filter is_Sleep (bijian_attempts ''task-1'' \<lparr>Cookie = []\<rparr> 500) = replicate 500 (Sleep 1)"
proof -
  have pending: "\<forall>j<500.
      ctx_Err (scripted_env None None) ([] @ bijian_attempts ''task-1'' \<lparr>Cookie = []\<rparr> j) = None \<and>
      (\<exists>resp. fst (bijian_queryResult (scripted_env None None) ''task-1'' \<lparr>Cookie = []\<rparr>
                     ([] @ bijian_attempts ''task-1'' \<lparr>Cookie = []\<rparr> j)) = Inr resp
              \<and> bijian_pending resp)"
    by (simp add: scripted_env_def bijian_queryResult_def bijian_pending_def
          get_object_def get_float64_def Let_def)
  show ?thesis
    using bijian_poll_timeout
      [where env = "scripted_env None None" and h = "[]" and taskID = "''task-1''"
         and opts = "\<lparr>Cookie = []\<rparr>", OF pending]
    by simp
qed

text \<open>
  C6.  Every attempt of the poll loop is decided by the status response of that attempt.
  After \<open>k\<close> pending attempts (\<open>k < 500\<close>), with the context not done and a status response
  received: a response without a \<open>data\<close> map, or whose \<open>data.state\<close> is not a number, ends
  the call with an error and is not retried; a state equal to 4 ends the call with the
  JSON decoded from \<open>data.result\<close> of that very response (or with the error of a missing
  or undecodable result); in these cases the last event is that attempt's request.  Any
  other state makes the loop sleep one second and go on with the next attempt.
\<close>

theorem bijian_poll_attempt:
  assumes "k < 500"
    and "\<forall>j<k. ctx_Err env (h @ bijian_attempts taskID opts j) = None \<and>
             (\<exists>resp. fst (bijian_queryResult env taskID opts (h @ bijian_attempts taskID opts j))
                       = Inr resp \<and> bijian_pending resp)"
    and "ctx_Err env (h @ bijian_attempts taskID opts k) = None"
    and "fst (bijian_queryResult env taskID opts (h @ bijian_attempts taskID opts k)) = Inr resp"
  shows "bijian_pollResult env taskID opts h =
     (case get_object resp ''data'' of
        None \<Rightarrow> (Inl (Errorf ''missing data field in response'' None),
                 h @ bijian_attempts taskID opts k @ [Request (bijian_queryRequest taskID opts)])
      | Some data \<Rightarrow>
          (case get_float64 data ''state'' of
             None \<Rightarrow> (Inl (Errorf ''missing state in response'' None),
                      h @ bijian_attempts taskID opts k @ [Request (bijian_queryRequest taskID opts)])
           | Some state \<Rightarrow>
               if f64_eq state (Fin 4)
               then ((case get_string data ''result'' of
                        None \<Rightarrow> Inl (Errorf ''missing result in response'' None)
                      | Some resultStr \<Rightarrow>
                          (case Unmarshal env resultStr of
                             Inl err \<Rightarrow> Inl (Errorf ''failed to parse result JSON: %w'' (Some err))
                           | Inr result \<Rightarrow> Inr result)),
                     h @ bijian_attempts taskID opts k @ [Request (bijian_queryRequest taskID opts)])
               else bijian_pollResult_from env taskID opts (Suc k)
                      (h @ bijian_attempts taskID opts (Suc k))))"
proof -
  let ?hk = "h @ bijian_attempts taskID opts k"
  let ?h' = "h @ bijian_attempts taskID opts k @ [Request (bijian_queryRequest taskID opts)]"
  obtain h1 where q1: "bijian_queryResult env taskID opts ?hk = (Inr resp, h1)"
    using assms(4) by (cases "bijian_queryResult env taskID opts ?hk") simp
  have "h1 = ?hk @ [Request (bijian_queryRequest taskID opts)]"
    using q1 by (rule bijian_queryResult_history)
  then have q: "bijian_queryResult env taskID opts ?hk = (Inr resp, ?h')"
    using q1 by simp
  have next_h: "?h' @ [Sleep 1] = h @ bijian_attempts taskID opts (Suc k)"
    by (simp add: bijian_attempts_def replicate_append_same [symmetric])
  have "bijian_pollResult_from env taskID opts 0 h =
          bijian_pollResult_from env taskID opts (0 + k) ?hk"
    using assms(1,2) by (intro bijian_poll_pending_prefix) simp_all
  also have "\<dots> =
     (case get_object resp ''data'' of
        None \<Rightarrow> (Inl (Errorf ''missing data field in response'' None), ?h')
      | Some data \<Rightarrow>
          (case get_float64 data ''state'' of
             None \<Rightarrow> (Inl (Errorf ''missing state in response'' None), ?h')
           | Some state \<Rightarrow>
               if f64_eq state (Fin 4)
               then ((case get_string data ''result'' of
                        None \<Rightarrow> Inl (Errorf ''missing result in response'' None)
                      | Some resultStr \<Rightarrow>
                          (case Unmarshal env resultStr of
                             Inl err \<Rightarrow> Inl (Errorf ''failed to parse result JSON: %w'' (Some err))
                           | Inr result \<Rightarrow> Inr result)), ?h')
               else bijian_pollResult_from env taskID opts (Suc k) (?h' @ [Sleep 1])))"
    using assms(1,3) q
    by (subst bijian_pollResult_from.simps) (simp split: option.splits sum.splits)
  finally show ?thesis
    unfolding next_h bijian_pollResult_def .
qed

theorem bijian_poll_attempt_witness:
  "bijian_pollResult (scripted_env (Some 2) None) ''task-1'' \<lparr>Cookie = []\<rparr> [] =
     (Inr [(''ret'', JStr ''0''), (''raw'', JStr ''transcript'')],
      [Request (bijian_queryRequest ''task-1'' \<lparr>Cookie = []\<rparr>), Sleep 1,
       Request (bijian_queryRequest ''task-1'' \<lparr>Cookie = []\<rparr>), Sleep 1,
       Request (bijian_queryRequest ''task-1'' \<lparr>Cookie = []\<rparr>)])"
proof -
  have k: "(2::nat) < 500" by simp
  have two: "bijian_attempts ''task-1'' \<lparr>Cookie = []\<rparr> 2 =
      [Request (bijian_queryRequest ''task-1'' \<lparr>Cookie = []\<rparr>), Sleep 1,
       Request (bijian_queryRequest ''task-1'' \<lparr>Cookie = []\<rparr>), Sleep 1]"
    by (simp add: bijian_attempts_def numeral_2_eq_2)
  have pending: "\<forall>j<2.
      ctx_Err (scripted_env (Some 2) None) ([] @ bijian_attempts ''task-1'' \<lparr>Cookie = []\<rparr> j) = None \<and>
      (\<exists>resp. fst (bijian_queryResult (scripted_env (Some 2) None) ''task-1'' \<lparr>Cookie = []\<rparr>
                     ([] @ bijian_attempts ''task-1'' \<lparr>Cookie = []\<rparr> j)) = Inr resp
              \<and> bijian_pending resp)"
    by (simp add: scripted_env_def bijian_queryResult_def bijian_pending_def
          get_object_def get_float64_def Let_def bijian_attempts_requests)
  have ctx: "ctx_Err (scripted_env (Some 2) None)
                ([] @ bijian_attempts ''task-1'' \<lparr>Cookie = []\<rparr> 2) = None"
    by (simp add: scripted_env_def)
  have third: "fst (bijian_queryResult (scripted_env (Some 2) None) ''task-1'' \<lparr>Cookie = []\<rparr>
                     ([] @ bijian_attempts ''task-1'' \<lparr>Cookie = []\<rparr> 2))
      = Inr [(''data'', JObj [(''state'', JNum (Fin 4)), (''result'', JStr ''transcript'')])]"
    by (simp add: scripted_env_def bijian_queryResult_def Let_def bijian_attempts_requests)
  show ?thesis
    using bijian_poll_attempt [OF k pending ctx third]
    by (simp add: two get_object_def get_float64_def get_string_def scripted_env_def)
qed

text \<open>
  C7.  The poll loop checks the context before every attempt.  When the first \<open>k\<close> attempts
  (\<open>k < 500\<close>) found the task pending and the context is done at the start of the next
  attempt, \<open>pollResult\<close> returns the context's error and what it did is exactly those \<open>k\<close>
  attempts: the next status request is never made; the error of a cancelled or expired
  context is not the timeout of the attempt cap.
\<close>

theorem bijian_poll_cancellation:
  assumes "k < 500"
    and "\<forall>j<k. ctx_Err env (h @ bijian_attempts taskID opts j) = None \<and>
             (\<exists>resp. fst (bijian_queryResult env taskID opts (h @ bijian_attempts taskID opts j))
                       = Inr resp \<and> bijian_pending resp)"
    and "ctx_Err env (h @ bijian_attempts taskID opts k) = Some err"
  shows "bijian_pollResult env taskID opts h = (Inl err, h @ bijian_attempts taskID opts k)
         \<and> length (filter is_Request (bijian_attempts taskID opts k)) = k
         \<and> (err = Canceled \<or> err = DeadlineExceeded \<longrightarrow>
              fst (bijian_pollResult env taskID opts h)
                \<noteq> Inl (Errorf ''polling timeout after 500 attempts'' None))"
proof -
  have "bijian_pollResult_from env taskID opts 0 h =
          bijian_pollResult_from env taskID opts (0 + k) (h @ bijian_attempts taskID opts k)"
    using assms(1,2) by (intro bijian_poll_pending_prefix) simp_all
  also have "\<dots> = (Inl err, h @ bijian_attempts taskID opts k)"
    using assms(1,3) by (intro bijian_poll_cancelled) simp_all
  finally have "bijian_pollResult env taskID opts h = (Inl err, h @ bijian_attempts taskID opts k)"
    by (simp add: bijian_pollResult_def)
  then show ?thesis by (auto simp: bijian_attempts_requests)
qed

theorem bijian_poll_cancellation_witness:
  "bijian_pollResult (scripted_env None (Some 2)) ''task-1'' \<lparr>Cookie = []\<rparr> [] =
     (Inl Canceled,
      [Request (bijian_queryRequest ''task-1'' \<lparr>Cookie = []\<rparr>), Sleep 1,
       Request (bijian_queryRequest ''task-1'' \<lparr>Cookie = []\<rparr>), Sleep 1])
   \<and> fst (bijian_pollResult (scripted_env None (Some 2)) ''task-1'' \<lparr>Cookie = []\<rparr> [])
       \<noteq> Inl (Errorf ''polling timeout after 500 attempts'' None)"
proof -
  have k: "(2::nat) < 500" by simp
  have pending: "\<forall>j<2.
      ctx_Err (scripted_env None (Some 2)) ([] @ bijian_attempts ''task-1'' \<lparr>Cookie = []\<rparr> j) = None \<and>
      (\<exists>resp. fst (bijian_queryResult (scripted_env None (Some 2)) ''task-1'' \<lparr>Cookie = []\<rparr>
                     ([] @ bijian_attempts ''task-1'' \<lparr>Cookie = []\<rparr> j)) = Inr resp
              \<and> bijian_pending resp)"
    by (simp add: scripted_env_def bijian_queryResult_def bijian_pending_def
          get_object_def get_float64_def Let_def bijian_attempts_sleeps)
  have fired: "ctx_Err (scripted_env None (Some 2))
                ([] @ bijian_attempts ''task-1'' \<lparr>Cookie = []\<rparr> 2) = Some Canceled"
    by (simp add: scripted_env_def bijian_attempts_sleeps)
  have two: "bijian_attempts ''task-1'' \<lparr>Cookie = []\<rparr> 2 =
      [Request (bijian_queryRequest ''task-1'' \<lparr>Cookie = []\<rparr>), Sleep 1,
       Request (bijian_queryRequest ''task-1'' \<lparr>Cookie = []\<rparr>), Sleep 1]"
    by (simp add: bijian_attempts_def numeral_2_eq_2)
  show ?thesis
    using bijian_poll_cancellation [OF k pending fired] by (simp add: two)
qed


section \<open>Options: the claims C9 and C10\<close>

text \<open>
  C9.  \<open>Validate\<close> of the JianYing options fills the default and enforces the time range
  before the workflow starts.  With \<open>StartTime = 10\<close> and \<open>EndTime = 5\<close> it returns a
  \<open>ValidationError\<close> on the field \<open>StartTime/EndTime\<close>, and \<open>Fetch\<close> returns that error
  without running the workflow, the outside state being untouched; with both times 0 it
  sets \<open>EndTime\<close> to 6000 and returns no error, and \<open>Fetch\<close> runs the workflow on the
  filled options.  In general, an error of \<open>Validate\<close> is returned by \<open>Fetch\<close> with the
  outside state untouched, and for finite times \<open>Validate\<close> accepts exactly
  \<open>0 \<le> StartTime < EndTime\<close>, a zero \<open>EndTime\<close> counting as 6000.
\<close>

theorem jianying_Validate_time_range:
  "jianying_Validate \<lparr>StartTime = Fin 10, EndTime = Fin 5\<rparr> =
     (\<lparr>StartTime = Fin 10, EndTime = Fin 5\<rparr>,
      Some (ValidationError ''StartTime/EndTime'' ''StartTime must be less than EndTime''))
   \<and> jianying_Fetch fetch audioPath (JianYingOptions (Some \<lparr>StartTime = Fin 10, EndTime = Fin 5\<rparr>)) w =
       (Inl (ValidationError ''StartTime/EndTime'' ''StartTime must be less than EndTime''), w)
   \<and> jianying_Validate \<lparr>StartTime = Fin 0, EndTime = Fin 0\<rparr> =
       (\<lparr>StartTime = Fin 0, EndTime = Fin 6000\<rparr>, None)
   \<and> jianying_Fetch fetch audioPath (JianYingOptions (Some \<lparr>StartTime = Fin 0, EndTime = Fin 0\<rparr>)) w =
       fetch audioPath \<lparr>StartTime = Fin 0, EndTime = Fin 6000\<rparr> w
   \<and> (snd (jianying_Validate opts) = Some err \<longrightarrow>
        jianying_Fetch fetch audioPath (JianYingOptions (Some opts)) w = (Inl err, w))
   \<and> (snd (jianying_Validate \<lparr>StartTime = Fin a, EndTime = Fin b\<rparr>) = None
        \<longleftrightarrow> 0 \<le> a \<and> a < (if b = 0 then 6000 else b))"
  by (auto simp: jianying_Validate_def jianying_Fetch_def Let_def split: if_splits prod.splits)

theorem jianying_Validate_time_range_witness:
  "snd (jianying_Validate \<lparr>StartTime = Fin 7, EndTime = Fin 3\<rparr>) =
     Some (ValidationError ''StartTime/EndTime'' ''StartTime must be less than EndTime'')
   \<and> jianying_Fetch (\<lambda>audioPath opts w. (Inr JNull, Suc w)) ''audio.mp3''
        (JianYingOptions (Some \<lparr>StartTime = Fin 7, EndTime = Fin 3\<rparr>)) (0::nat) =
       (Inl (ValidationError ''StartTime/EndTime'' ''StartTime must be less than EndTime''), 0)
   \<and> snd (jianying_Validate \<lparr>StartTime = Fin 1, EndTime = Fin 0\<rparr>) = None"
proof -
  have v: "snd (jianying_Validate \<lparr>StartTime = Fin 7, EndTime = Fin 3\<rparr>) =
     Some (ValidationError ''StartTime/EndTime'' ''StartTime must be less than EndTime'')"
    by (simp add: jianying_Validate_def)
  have r: "(0::rat) \<le> 1 \<and> (1::rat) < (if (0::rat) = 0 then 6000 else 0)" by simp
  show ?thesis
    using v r
      jianying_Validate_time_range
        [where opts = "\<lparr>StartTime = Fin 7, EndTime = Fin 3\<rparr>"
           and err = "ValidationError ''StartTime/EndTime'' ''StartTime must be less than EndTime''"
           and fetch = "\<lambda>audioPath opts w. (Inr JNull, Suc w)" and audioPath = "''audio.mp3''"
           and w = "0::nat" and a = 1 and b = 0]
    by blast
qed

text \<open>
  C10.  \<open>Fetch\<close> of each provider, called with the nil interface, with a nil pointer, or
  with a value that is not a pointer to that provider's own options, does not fail: it
  takes default-constructed options, validates them (which fills the defaults) and runs
  the workflow on them.
\<close>

theorem Fetch_substitutes_default_options:
  "((\<forall>p. opts \<noteq> ElevenLabsOptions (Some p)) \<longrightarrow>
      elevenlabs_Fetch fetch1 audioPath opts w =
        fetch1 audioPath \<lparr>LanguageCode = ''auto'', TagAudioEvents = False\<rparr> w) \<and>
   ((\<forall>p. opts \<noteq> JianYingOptions (Some p)) \<longrightarrow>
      jianying_Fetch fetch2 audioPath opts w =
        fetch2 audioPath \<lparr>StartTime = Fin 0, EndTime = Fin 6000\<rparr> w) \<and>
   ((\<forall>p. opts \<noteq> BijianOptions (Some p)) \<longrightarrow>
      bijian_Fetch fetch3 audioPath opts w = fetch3 audioPath \<lparr>Cookie = []\<rparr> w)"
proof (intro conjI impI)
  assume "\<forall>p. opts \<noteq> ElevenLabsOptions (Some p)"
  then show "elevenlabs_Fetch fetch1 audioPath opts w =
        fetch1 audioPath \<lparr>LanguageCode = ''auto'', TagAudioEvents = False\<rparr> w"
    by (cases opts) (auto simp: elevenlabs_Fetch_def elevenlabs_Validate_def split: option.splits)
next
  assume "\<forall>p. opts \<noteq> JianYingOptions (Some p)"
  then show "jianying_Fetch fetch2 audioPath opts w =
        fetch2 audioPath \<lparr>StartTime = Fin 0, EndTime = Fin 6000\<rparr> w"
    by (cases opts) (auto simp: jianying_Fetch_def jianying_Validate_def split: option.splits)
next
  assume "\<forall>p. opts \<noteq> BijianOptions (Some p)"
  then show "bijian_Fetch fetch3 audioPath opts w = fetch3 audioPath \<lparr>Cookie = []\<rparr> w"
    by (cases opts) (auto simp: bijian_Fetch_def bijian_Validate_def split: option.splits)
qed

theorem Fetch_substitutes_default_options_witness:
  "elevenlabs_Fetch (\<lambda>audioPath opts w. (Inr (JStr (LanguageCode opts)), Suc w)) ''audio.mp3''
      NilOptions (0::nat) = (Inr (JStr ''auto''), 1) \<and>
   jianying_Fetch (\<lambda>audioPath opts w. (Inr (JNum (EndTime opts)), Suc w)) ''audio.mp3''
      NilOptions (0::nat) = (Inr (JNum (Fin 6000)), 1) \<and>
   bijian_Fetch (\<lambda>audioPath opts w. (Inr (JStr (Cookie opts)), Suc w)) ''audio.mp3''
      NilOptions (0::nat) = (Inr (JStr []), 1)"
proof -
  have n: "\<forall>p. NilOptions \<noteq> ElevenLabsOptions (Some p)"
    "\<forall>p. NilOptions \<noteq> JianYingOptions (Some p)"
    "\<forall>p. NilOptions \<noteq> BijianOptions (Some p)"
    by simp_all
  show ?thesis
    using n Fetch_substitutes_default_options
      [where opts = NilOptions and audioPath = "''audio.mp3''" and w = "0::nat"
         and ?fetch1.0 = "\<lambda>audioPath opts w. (Inr (JStr (LanguageCode opts)), Suc w)"
         and ?fetch2.0 = "\<lambda>audioPath opts w. (Inr (JNum (EndTime opts)), Suc w)"
         and ?fetch3.0 = "\<lambda>audioPath opts w. (Inr (JStr (Cookie opts)), Suc w)"]
    by simp
qed

end
